theory Spec2Isabelle
  imports Complex_Main
begin

section \<open>pyFDA transient response: \<open>PlotImpz.calc\<close> and \<open>PlotImpz.calc_n_points\<close>\<close>

text \<open>
  A shallow embedding of \<^verbatim>\<open>src/pyfda/plot_widgets/plot_impz.py\<close>: the method
  \<^verbatim>\<open>calc\<close> (lines 215-313) and the method \<^verbatim>\<open>calc_n_points\<close> (lines 429-447).
  \<^verbatim>\<open>calc\<close> reads the user interface object \<^verbatim>\<open>self.ui\<close> and the filter dictionary
  \<^verbatim>\<open>fb.fil[0]\<close>, and writes its results into fields of \<^verbatim>\<open>self\<close>; the model passes
  the three as records and returns the updated \<^verbatim>\<open>self\<close> with the way the call ended.
  Floating point numbers are modelled as reals and complex numbers, Python's unbounded
  non-negative integers as \<open>nat\<close>.
\<close>

subsection \<open>numpy arrays\<close>

text \<open>
  A one-dimensional numpy array has a dtype: \<^verbatim>\<open>float64\<close> or \<^verbatim>\<open>complex128\<close>.
  \<^verbatim>\<open>np.real_if_close\<close> and \<^verbatim>\<open>np.iscomplex\<close> depend on it.
\<close>

datatype ndarray = Float64 "real list" | Complex128 "complex list"

fun len :: "ndarray \<Rightarrow> nat" where
  "len (Float64 xs) = length xs"
| "len (Complex128 zs) = length zs"

text \<open>\<^verbatim>\<open>y.real\<close> and \<^verbatim>\<open>y.imag\<close>; the imaginary part of a float array is zero.\<close>

fun nd_real :: "ndarray \<Rightarrow> real list" where
  "nd_real (Float64 xs) = xs"
| "nd_real (Complex128 zs) = map Re zs"

fun nd_imag :: "ndarray \<Rightarrow> real list" where
  "nd_imag (Float64 xs) = map (\<lambda>v. 0) xs"
| "nd_imag (Complex128 zs) = map Im zs"

text \<open>The samples of an array read as complex numbers, whatever the dtype.\<close>

fun samples :: "ndarray \<Rightarrow> complex list" where
  "samples (Float64 xs) = map complex_of_real xs"
| "samples (Complex128 zs) = zs"

text \<open>
  \<^verbatim>\<open>np.iscomplex(y)\<close>: elementwise, true where the imaginary part is not zero; all
  false for a float array. \<^verbatim>\<open>np.any\<close>: some element is true.
\<close>

fun np_iscomplex :: "ndarray \<Rightarrow> bool list" where
  "np_iscomplex (Float64 xs) = map (\<lambda>v. False) xs"
| "np_iscomplex (Complex128 zs) = map (\<lambda>z. Im z \<noteq> 0) zs"

definition np_any :: "bool list \<Rightarrow> bool" where
  "np_any bs = list_ex (\<lambda>b. b) bs"

text \<open>
  Machine epsilon of \<^verbatim>\<open>float64\<close> (and of the parts of \<^verbatim>\<open>complex128\<close>),
  \<^verbatim>\<open>np.finfo(float).eps\<close>.
\<close>

definition float64_eps :: real where
  "float64_eps = 1 / 2 ^ 52"

text \<open>
  \<^verbatim>\<open>np.real_if_close(a, tol)\<close>: an array that is not complex is returned as it is; a
  tolerance above 1 is in multiples of machine epsilon; when the absolute value of every
  imaginary part is below the tolerance the real part is returned, otherwise the array
  as it is.
\<close>

fun real_if_close :: "ndarray \<Rightarrow> real \<Rightarrow> ndarray" where
  "real_if_close (Float64 xs) tol = Float64 xs"
| "real_if_close (Complex128 zs) tol =
     (let tol' = (if tol > 1 then float64_eps * tol else tol)
      in if list_all (\<lambda>z. \<bar>Im z\<bar> < tol') zs then Float64 (map Re zs) else Complex128 zs)"

text \<open>
  \<^verbatim>\<open>y - c\<close> for an array \<^verbatim>\<open>c\<close> of one float: broadcasting subtracts the float from
  every element and keeps the dtype of \<^verbatim>\<open>y\<close>.
\<close>

fun nd_sub :: "ndarray \<Rightarrow> real \<Rightarrow> ndarray" where
  "nd_sub (Float64 xs) c = Float64 (map (\<lambda>v. v - c) xs)"
| "nd_sub (Complex128 zs) c = Complex128 (map (\<lambda>z. z - complex_of_real c) zs)"

text \<open>
  \<^verbatim>\<open>np.linspace(start, stop, num, endpoint=False)\<close>: \<open>num\<close> points from \<open>start\<close> in
  steps of \<open>(stop - start) / num\<close>.
\<close>

definition linspace :: "real \<Rightarrow> real \<Rightarrow> nat \<Rightarrow> real list" where
  "linspace start stop num = map (\<lambda>i. start + real i * ((stop - start) / real num)) [0..<num]"

text \<open>
  \<^verbatim>\<open>x[k:] += d\<close>: the elements from index \<open>k\<close> on are increased by those of \<open>d\<close>, the
  elements before \<open>k\<close> are not touched. In \<^verbatim>\<open>calc\<close> the slice and \<open>d\<close> have the
  same length.
\<close>

definition iadd_from :: "nat \<Rightarrow> real list \<Rightarrow> real list \<Rightarrow> real list" where
  "iadd_from k xs ds = take k xs @ map2 (\<lambda>v d. v + d) (drop k xs) ds"

subsection \<open>The numeric library\<close>

text \<open>
  \<^verbatim>\<open>scipy.signal\<close> and \<^verbatim>\<open>np.random\<close> are not part of the repository; what
  \<^verbatim>\<open>calc\<close> calls of them is a parameter of the model:
  \<^item> \<open>sosfilt sos x\<close>, \<open>lfilter b a x\<close> and \<open>filtfilt b a x\<close> (the latter called with
    \<^verbatim>\<open>axis=-1, padtype=None\<close>);
  \<^item> \<open>freqz b a w\<close>, the frequency response at the angular frequency \<open>w\<close>:
    \<^verbatim>\<open>sig.freqz(b, a, [0])\<close> is the pair of \<^verbatim>\<open>[0]\<close> and the array of
    the one value \<open>freqz b a 0\<close>;
  \<^item> \<open>sawtooth\<close>, applied elementwise;
  \<^item> \<open>randn\<close> and \<open>rand\<close>, the draws of the process-wide generator in their order:
    \<^verbatim>\<open>np.random.randn(k)\<close> is the array of the draws \<open>0..<k\<close>.

  The parameters are total functions: an input that the library refuses with an
  exception of its own (\<^verbatim>\<open>lfilter\<close> with \<open>a[0] = 0\<close>, for one) is outside the model,
  and so are the values \<^verbatim>\<open>inf\<close> and \<^verbatim>\<open>nan\<close> of floating point.
\<close>

record numlib =
  sosfilt :: "complex list list \<Rightarrow> ndarray \<Rightarrow> ndarray"
  filtfilt :: "ndarray \<Rightarrow> ndarray \<Rightarrow> ndarray \<Rightarrow> ndarray"
  lfilter :: "ndarray \<Rightarrow> ndarray \<Rightarrow> ndarray \<Rightarrow> ndarray"
  freqz :: "ndarray \<Rightarrow> ndarray \<Rightarrow> real \<Rightarrow> complex"
  sawtooth :: "real \<Rightarrow> real"
  randn :: "nat \<Rightarrow> real"
  rand :: "nat \<Rightarrow> real"

definition np_random_randn :: "numlib \<Rightarrow> nat \<Rightarrow> real list" where
  "np_random_randn lib k = map (randn lib) [0..<k]"

definition np_random_rand :: "numlib \<Rightarrow> nat \<Rightarrow> real list" where
  "np_random_rand lib k = map (rand lib) [0..<k]"

subsection \<open>What \<^verbatim>\<open>calc\<close> reads and writes\<close>

text \<open>
  A Qt line edit, as far as \<^verbatim>\<open>calc\<close> looks at it. \<^verbatim>\<open>isVisible\<close> is a method:
  \<^verbatim>\<open>w.isVisible()\<close> is \<open>isVisible w ()\<close>. Line 279 does not call it: it tests the
  bound method object \<^verbatim>\<open>self.ui.ledDC.isVisible\<close>, and the truth value of a
  bound method is true in Python.
\<close>

record QLineEdit =
  visible :: bool

definition isVisible :: "QLineEdit \<Rightarrow> unit \<Rightarrow> bool" where
  "isVisible w u = visible w"

definition truth_of_method :: "(unit \<Rightarrow> bool) \<Rightarrow> bool" where
  "truth_of_method m = True"

text \<open>
  \<^verbatim>\<open>self.ui\<close>. \<open>ui_N_points\<close> is the value of
  \<^verbatim>\<open>safe_eval(self.ui.ledN_points.text(), 0, return_type='int', sign='pos')\<close>,
  a non-negative integer; \<^verbatim>\<open>N_start\<close> is a non-negative integer too.
\<close>

record ui =
  ui_N_points :: nat
  ui_N_start :: nat
  ui_cmbStimulus :: string
  ui_A1 :: real
  ui_A2 :: real
  ui_phi1 :: real
  ui_phi2 :: real
  ui_noise :: string
  ui_noi :: real
  ui_DC :: real
  ui_ledDC :: QLineEdit

text \<open>
  The filter dictionary \<^verbatim>\<open>fb.fil[0]\<close>: \<^verbatim>\<open>'f_S'\<close>, \<^verbatim>\<open>'ba'\<close> (the pair of
  \<open>b\<close> and \<open>a\<close>), \<^verbatim>\<open>'sos'\<close> (a list of rows), \<^verbatim>\<open>'ft'\<close>, and whether the key
  \<^verbatim>\<open>'zpkA'\<close> is in the dictionary.
\<close>

record fil =
  fil_f_S :: real
  fil_ba :: "ndarray \<times> ndarray"
  fil_sos :: "complex list list"
  fil_ft :: string
  fil_has_zpkA :: bool

text \<open>
  The fields of \<^verbatim>\<open>self\<close> that \<^verbatim>\<open>calc\<close> reads or writes. \<^verbatim>\<open>self.H_str\<close>, the
  axis label that is set next to \<^verbatim>\<open>self.title_str\<close>, is left out: nothing in
  \<^verbatim>\<open>calc\<close> reads it. \<^verbatim>\<open>self.y_i\<close> is \<^verbatim>\<open>None\<close> or an array.
\<close>

record plot_impz =
  self_f1 :: real
  self_f2 :: real
  self_N :: nat
  self_t :: "real list"
  self_x :: "real list"
  self_title_str :: string
  self_bb :: ndarray
  self_aa :: ndarray
  self_y :: ndarray
  self_y_i :: "ndarray option"
  self_cmplx :: bool

text \<open>
  How a call ends: it runs to its last line, it logs an error and returns early
  (lines 269-270 and 286-287), or an exception leaves it.
\<close>

datatype report = Unknown_stimulus string | No_proper_coefficients

datatype exn = ZeroDivisionError | IndexError

datatype outcome = Completed | Reported report | Raised exn

subsection \<open>\<^verbatim>\<open>calc_n_points\<close> (lines 429-447)\<close>

definition calc_n_points :: "fil \<Rightarrow> nat \<Rightarrow> nat" where
  "calc_n_points fb N_user =
     (if N_user = 0 then
        (if fil_ft fb = ''IIR'' then 100 else min (len (fst (fil_ba fb))) 100)
      else N_user)"

subsection \<open>\<^verbatim>\<open>calc\<close> (lines 215-313)\<close>

text \<open>
  Lines 220-227. \<^verbatim>\<open>self.N\<close> is assigned before the division by \<^verbatim>\<open>f_S\<close>, which
  raises \<^verbatim>\<open>ZeroDivisionError\<close> for a sampling frequency of zero.
\<close>

definition time_vector :: "ui \<Rightarrow> fil \<Rightarrow> plot_impz \<Rightarrow> outcome \<times> plot_impz" where
  "time_vector ui fb self =
     (let N_user = ui_N_points ui;
          self = (if N_user = 0 then self\<lparr>self_N := calc_n_points fb N_user\<rparr>
                  else self\<lparr>self_N := N_user\<rparr>);
          self = self\<lparr>self_N := self_N self + ui_N_start ui\<rparr>
      in if fil_f_S fb = 0 then (Raised ZeroDivisionError, self)
         else (Completed,
               self\<lparr>self_t := linspace 0 (real (self_N self) / fil_f_S fb) (self_N self)\<rparr>))"

text \<open>
  Lines 229-270. For \<^verbatim>\<open>"Pulse"\<close> the array of zeros is stored first and its element 0
  is assigned next, which raises \<^verbatim>\<open>IndexError\<close> when the array is empty. An
  unknown name is logged and the call returns.
\<close>

definition stimulus :: "numlib \<Rightarrow> ui \<Rightarrow> plot_impz \<Rightarrow> outcome \<times> plot_impz" where
  "stimulus lib ui self =
     (let stim = ui_cmbStimulus ui; A1 = ui_A1 ui; A2 = ui_A2 ui
      in if stim = ''Pulse'' then
           (let self = self\<lparr>self_x := replicate (self_N self) 0\<rparr>
            in if self_N self = 0 then (Raised IndexError, self)
               else (Completed, self\<lparr>self_x := (self_x self)[0 := A1],
                                       self_title_str := ''Impulse Response''\<rparr>))
         else if stim = ''Step'' then
           (Completed, self\<lparr>self_x := map (\<lambda>v. A1 * v) (replicate (self_N self) 1),
                             self_title_str := ''Step Response''\<rparr>)
         else if stim = ''StepErr'' then
           (Completed, self\<lparr>self_x := map (\<lambda>v. A1 * v) (replicate (self_N self) 1),
                             self_title_str := ''Settling Error''\<rparr>)
         else if stim = ''Cos'' then
           (Completed, self\<lparr>self_x := map (\<lambda>t. A1 * cos (2 * pi * t * self_f1 self)) (self_t self),
                             self_title_str := ''Transient Response to Cosine Signal''\<rparr>)
         else if stim = ''Sine'' then
           (Completed, self\<lparr>self_x := map (\<lambda>t. A1 * sin (2 * pi * t * self_f1 self + ui_phi1 ui)
                                                  + A2 * sin (2 * pi * t * self_f2 self + ui_phi2 ui))
                                            (self_t self),
                             self_title_str := ''Transient Response to Sinusoidal Signal''\<rparr>)
         else if stim = ''Rect'' then
           (Completed, self\<lparr>self_x := map (\<lambda>t. A1 * sgn (sin (2 * pi * t * self_f1 self))) (self_t self),
                             self_title_str := ''Transient Response to Rect. Signal''\<rparr>)
         else if stim = ''Saw'' then
           (Completed, self\<lparr>self_x := map (\<lambda>t. A1 * sawtooth lib (t * self_f1 self * 2 * pi)) (self_t self),
                             self_title_str := ''Transient Response to Sawtooth Signal''\<rparr>)
         else (Reported (Unknown_stimulus stim), self))"

text \<open>
  Lines 272-276. \<^verbatim>\<open>self.N\<close> is never below \<^verbatim>\<open>N_start\<close> (line 226), so the
  subtraction of naturals is Python's.
\<close>

definition add_noise :: "numlib \<Rightarrow> ui \<Rightarrow> plot_impz \<Rightarrow> plot_impz" where
  "add_noise lib ui self =
     (if ui_noise ui = ''gauss'' then
        self\<lparr>self_x := iadd_from (ui_N_start ui) (self_x self)
                 (map (\<lambda>r. ui_noi ui * r) (np_random_randn lib (self_N self - ui_N_start ui)))\<rparr>
      else if ui_noise ui = ''uniform'' then
        self\<lparr>self_x := iadd_from (ui_N_start ui) (self_x self)
                 (map (\<lambda>r. ui_noi ui * (r - 0.5)) (np_random_rand lib (self_N self - ui_N_start ui)))\<rparr>
      else self)"

text \<open>Lines 278-280.\<close>

definition add_dc :: "ui \<Rightarrow> plot_impz \<Rightarrow> plot_impz" where
  "add_dc ui self =
     (if truth_of_method (isVisible (ui_ledDC ui))
      then self\<lparr>self_x := map (\<lambda>v. v + ui_DC ui) (self_x self)\<rparr>
      else self)"

text \<open>Lines 289-298: the filter is chosen and applied to \<^verbatim>\<open>self.x\<close>.\<close>

definition apply_filter :: "numlib \<Rightarrow> fil \<Rightarrow> plot_impz \<Rightarrow> ndarray" where
  "apply_filter lib fb self =
     (let sos = fil_sos fb;
          antiCausal = fil_has_zpkA fb;
          causal = \<not> antiCausal
      in if length sos > 0 \<and> causal then sosfilt lib sos (Float64 (self_x self))
         else if antiCausal then filtfilt lib (self_bb self) (self_aa self) (Float64 (self_x self))
         else lfilter lib (self_bb self) (self_aa self) (Float64 (self_x self)))"

text \<open>Lines 302-304.\<close>

definition settling_error :: "numlib \<Rightarrow> ui \<Rightarrow> plot_impz \<Rightarrow> ndarray \<Rightarrow> ndarray" where
  "settling_error lib ui self y =
     (if ui_cmbStimulus ui = ''StepErr'' then
        (let dc = freqz lib (self_bb self) (self_aa self) 0 in nd_sub y (cmod dc))
      else y)"

text \<open>Lines 306-313.\<close>

definition store_response :: "plot_impz \<Rightarrow> ndarray \<Rightarrow> plot_impz" where
  "store_response self y0 =
     (let y = real_if_close y0 1000;
          self = self\<lparr>self_cmplx := np_any (np_iscomplex y)\<rparr>
      in if self_cmplx self
         then self\<lparr>self_y_i := Some (Float64 (nd_imag y)), self_y := Float64 (nd_real y)\<rparr>
         else self\<lparr>self_y := y, self_y_i := None\<rparr>)"

text \<open>Lines 282-313.\<close>

definition response :: "numlib \<Rightarrow> ui \<Rightarrow> fil \<Rightarrow> plot_impz \<Rightarrow> outcome \<times> plot_impz" where
  "response lib ui fb self =
     (let self = self\<lparr>self_bb := fst (fil_ba fb)\<rparr>;
          self = self\<lparr>self_aa := snd (fil_ba fb)\<rparr>
      in if min (len (self_aa self)) (len (self_bb self)) < 2
         then (Reported No_proper_coefficients, self)
         else (Completed,
               store_response self (settling_error lib ui self (apply_filter lib fb self))))"

text \<open>The whole method, in the order of its lines.\<close>

definition calc :: "numlib \<Rightarrow> ui \<Rightarrow> fil \<Rightarrow> plot_impz \<Rightarrow> outcome \<times> plot_impz" where
  "calc lib ui fb self =
     (case time_vector ui fb self of
        (Completed, self) \<Rightarrow>
          (case stimulus lib ui self of
             (Completed, self) \<Rightarrow> response lib ui fb (add_dc ui (add_noise lib ui self))
           | (Reported r, self) \<Rightarrow> (Reported r, self)
           | (Raised e, self) \<Rightarrow> (Raised e, self))
      | (Reported r, self) \<Rightarrow> (Reported r, self)
      | (Raised e, self) \<Rightarrow> (Raised e, self))"

subsection \<open>Vocabulary of the properties\<close>

text \<open>The seven names that lines 231-266 compare the stimulus with.\<close>

definition stimuli :: "string list" where
  "stimuli = [''Pulse'', ''Step'', ''StepErr'', ''Cos'', ''Sine'', ''Rect'', ''Saw'']"

text \<open>The value of \<^verbatim>\<open>self.N\<close> after line 226.\<close>

definition total_points :: "ui \<Rightarrow> fil \<Rightarrow> nat" where
  "total_points ui fb = calc_n_points fb (ui_N_points ui) + ui_N_start ui"

text \<open>
  The inputs for which lines 220-280 run to their end: the sampling frequency is not
  zero, the stimulus is known, and it is not a pulse of length zero.
\<close>

definition generates :: "ui \<Rightarrow> fil \<Rightarrow> bool" where
  "generates ui fb \<longleftrightarrow>
     fil_f_S fb \<noteq> 0 \<and> ui_cmbStimulus ui \<in> set stimuli \<and>
     \<not> (ui_cmbStimulus ui = ''Pulse'' \<and> total_points ui fb = 0)"

text \<open>
  \<^verbatim>\<open>self\<close> after line 284, when the lines before ran to their end: the stimulus with
  noise and offset is stored, and so are the coefficients.
\<close>

definition before_filter :: "numlib \<Rightarrow> ui \<Rightarrow> fil \<Rightarrow> plot_impz \<Rightarrow> plot_impz" where
  "before_filter lib ui fb self =
     (add_dc ui (add_noise lib ui (snd (stimulus lib ui (snd (time_vector ui fb self))))))
       \<lparr>self_bb := fst (fil_ba fb), self_aa := snd (fil_ba fb)\<rparr>"

subsection \<open>An instance of the library, to run the model\<close>

text \<open>
  The difference equation that the documentation of \<^verbatim>\<open>scipy.signal.lfilter\<close> gives,
  \<open>a[0] y[n] = b[0] x[n] + ... + b[M] x[n-M] - a[1] y[n-1] - ... - a[N] y[n-N]\<close>, run from
  rest. \<open>xh\<close> and \<open>yh\<close> are the inputs and outputs so far, the latest first. It stands for
  the library where a property is evaluated on an input; \<open>a\<close> is not empty and
  \<open>a[0]\<close> is not zero there.
\<close>

definition dot :: "complex list \<Rightarrow> complex list \<Rightarrow> complex" where
  "dot cs hs = sum_list (map2 (\<lambda>c h. c * h) cs hs)"

fun direct_form ::
  "complex list \<Rightarrow> complex \<Rightarrow> complex list \<Rightarrow> complex list \<Rightarrow> complex list \<Rightarrow> complex list
     \<Rightarrow> complex list" where
  "direct_form b a0 a1 xh yh [] = []"
| "direct_form b a0 a1 xh yh (x # xs) =
     (let yn = (dot b (x # xh) - dot a1 yh) / a0
      in yn # direct_form b a0 a1 (x # xh) (yn # yh) xs)"

fun is_float :: "ndarray \<Rightarrow> bool" where
  "is_float (Float64 xs) = True"
| "is_float (Complex128 zs) = False"

definition lfilter_direct :: "ndarray \<Rightarrow> ndarray \<Rightarrow> ndarray \<Rightarrow> ndarray" where
  "lfilter_direct b a x =
     (case samples a of
        [] \<Rightarrow> x
      | a0 # a1 \<Rightarrow>
          (let ys = direct_form (samples b) a0 a1 [] [] (samples x)
           in if is_float b \<and> is_float a \<and> is_float x then Float64 (map Re ys)
              else Complex128 ys))"

text \<open>
  \<^verbatim>\<open>scipy.signal.filtfilt\<close> with \<^verbatim>\<open>padtype=None\<close>: the signal is not extended; the
  coefficients are divided by \<open>a[0]\<close> and the shorter list is filled with zeros;
  \<^verbatim>\<open>lfilter_zi\<close> is the state of the delays (direct form II transposed) in the steady
  state of the step response, \<open>zi[k]\<close> being the sum over \<open>j > k\<close> of \<open>b[j] - a[j] g\<close> with
  \<open>g\<close> the quotient of the sums of \<open>b\<close> and \<open>a\<close>; the forward pass starts from \<open>zi\<close> times
  the first sample, the backward pass runs over the reversed result and starts from \<open>zi\<close>
  times its first sample, and the result is reversed again. The sum of \<open>a\<close> is not zero
  and \<open>x\<close> is not empty where the instance is evaluated.
\<close>

definition pad_zeros :: "nat \<Rightarrow> complex list \<Rightarrow> complex list" where
  "pad_zeros n cs = cs @ replicate (n - length cs) 0"

fun suffix_sums :: "complex list \<Rightarrow> complex list" where
  "suffix_sums [] = []"
| "suffix_sums (t # ts) = (t + sum_list ts) # suffix_sums ts"

definition lfilter_zi :: "complex list \<Rightarrow> complex list \<Rightarrow> complex list" where
  "lfilter_zi b a =
     (let g = sum_list b / sum_list a
      in suffix_sums (map2 (\<lambda>bk ak. bk - ak * g) (tl b) (tl a)))"

fun transposed_form ::
  "complex \<Rightarrow> complex list \<Rightarrow> complex list \<Rightarrow> complex list \<Rightarrow> complex list \<Rightarrow> complex list" where
  "transposed_form b0 b1 a1 z [] = []"
| "transposed_form b0 b1 a1 z (x # xs) =
     (let y = b0 * x + (case z of [] \<Rightarrow> 0 | z0 # zs \<Rightarrow> z0);
          z' = map2 (\<lambda>(bk, ak) zk. bk * x - ak * y + zk) (zip b1 a1) (tl z @ [0])
      in y # transposed_form b0 b1 a1 z' xs)"

definition forward_backward :: "complex list \<Rightarrow> complex list \<Rightarrow> complex list \<Rightarrow> complex list" where
  "forward_backward b a x =
     (case (a, x) of
        (a0 # _, x0 # _) \<Rightarrow>
          (let n = max (length a) (length b);
               b' = pad_zeros n (map (\<lambda>c. c / a0) b);
               a' = pad_zeros n (map (\<lambda>c. c / a0) a);
               zi = lfilter_zi b' a';
               y1 = transposed_form (hd b') (tl b') (tl a') (map (\<lambda>z. z * x0) zi) x;
               y2 = transposed_form (hd b') (tl b') (tl a') (map (\<lambda>z. z * last y1) zi) (rev y1)
           in rev y2)
      | _ \<Rightarrow> x)"

definition filtfilt_zi :: "ndarray \<Rightarrow> ndarray \<Rightarrow> ndarray \<Rightarrow> ndarray" where
  "filtfilt_zi b a x =
     (let ys = forward_backward (samples b) (samples a) (samples x)
      in if is_float b \<and> is_float a \<and> is_float x then Float64 (map Re ys) else Complex128 ys)"

text \<open>
  \<open>poly_zinv c z\<close> is the sum of the \<open>c[k] z\<^sup>-\<^sup>k\<close>; the frequency response is the quotient
  of the two sums on the unit circle, where the denominator is not zero.
\<close>

fun poly_zinv :: "complex list \<Rightarrow> complex \<Rightarrow> complex" where
  "poly_zinv [] z = 0"
| "poly_zinv (c # cs) z = c + poly_zinv cs z / z"

text \<open>
  The instance: the sections of a cascade one after the other, each by the difference
  equation; the forward and backward passes with the initial conditions of
  \<^verbatim>\<open>lfilter_zi\<close>; the quotient of the two polynomials on the unit circle; the ramp from
  -1 to 1 over each period of \<open>2 pi\<close>; and fixed draws.
\<close>

definition direct_lib :: numlib where
  "direct_lib =
     \<lparr>sosfilt = (\<lambda>sos x. fold (\<lambda>s. lfilter_direct (Complex128 (take 3 s)) (Complex128 (drop 3 s))) sos x),
      filtfilt = filtfilt_zi,
      lfilter = lfilter_direct,
      freqz = (\<lambda>b a w. poly_zinv (samples b) (cis w) / poly_zinv (samples a) (cis w)),
      sawtooth = (\<lambda>t. (t - 2 * pi * of_int \<lfloor>t / (2 * pi)\<rfloor>) / pi - 1),
      randn = (\<lambda>k. 1),
      rand = (\<lambda>k. 3 / 4)\<rparr>"

text \<open>
  A call to evaluate: two points after one point of start-up, a unit step, no noise,
  through \<open>y[n] = x[n] + x[n-1]\<close>; the same filter with one section of gain 2; and the
  same again when the key \<^verbatim>\<open>'zpkA'\<close> is present.
\<close>

definition demo_ui :: ui where
  "demo_ui = \<lparr>ui_N_points = 2, ui_N_start = 1, ui_cmbStimulus = ''Step'', ui_A1 = 1, ui_A2 = 0,
     ui_phi1 = 0, ui_phi2 = 0, ui_noise = ''none'', ui_noi = 0, ui_DC = 0,
     ui_ledDC = \<lparr>visible = False\<rparr>\<rparr>"

definition demo_fil :: fil where
  "demo_fil = \<lparr>fil_f_S = 1, fil_ba = (Float64 [1, 1], Float64 [1, 0]), fil_sos = [],
     fil_ft = ''FIR'', fil_has_zpkA = False\<rparr>"

definition demo_fil_sos :: fil where
  "demo_fil_sos = demo_fil\<lparr>fil_sos := [[2, 0, 0, 1, 0, 0]]\<rparr>"

definition demo_fil_anticausal :: fil where
  "demo_fil_anticausal = demo_fil_sos\<lparr>fil_has_zpkA := True\<rparr>"

definition demo_self :: plot_impz where
  "demo_self = \<lparr>self_f1 = 0, self_f2 = 0, self_N = 0, self_t = [], self_x = [],
     self_title_str = [], self_bb = Float64 [], self_aa = Float64 [], self_y = Float64 [],
     self_y_i = None, self_cmplx = False\<rparr>"

text \<open>
  What the library documents for the three filters: the result has the shape of the
  input.
\<close>

definition shape_preserving :: "numlib \<Rightarrow> bool" where
  "shape_preserving lib \<longleftrightarrow>
     (\<forall>sos x. len (sosfilt lib sos x) = len x) \<and>
     (\<forall>b a x. len (filtfilt lib b a x) = len x) \<and>
     (\<forall>b a x. len (lfilter lib b a x) = len x)"

text \<open>
  The test of \<^verbatim>\<open>np.real_if_close(y, tol = 1e3)\<close> on the samples of \<open>y\<close>: every
  imaginary part is below 1000 machine epsilons in absolute value.
\<close>

definition imag_below_tol :: "ndarray \<Rightarrow> bool" where
  "imag_below_tol y \<longleftrightarrow> list_all (\<lambda>z. \<bar>Im z\<bar> < 1000 * float64_eps) (samples y)"

text \<open>
  The wording of the specification for the same test, "imaginary parts all below
  \<open>1000 eps\<close> relative to the signal scale", with the largest magnitude of a sample as
  the scale of the signal.
\<close>

definition signal_scale :: "ndarray \<Rightarrow> real" where
  "signal_scale y = fold max (map cmod (samples y)) 0"

definition spec_imag_negligible :: "ndarray \<Rightarrow> bool" where
  "spec_imag_negligible y \<longleftrightarrow>
     list_all (\<lambda>z. \<bar>Im z\<bar> < 1000 * float64_eps * signal_scale y) (samples y)"

text \<open>
  Further inputs: the identity filter with one coefficient each and with two; an empty
  numerator; a pulse with the point count left to the heuristic and no start-up; FIR
  filters of 37 and of 150 coefficients; an offset of 1 behind a hidden line edit; noise
  of level 2; noise of level 1 with an offset of 1/2; the settling error; and a numerator with an imaginary part of 2000 machine
  epsilons.
\<close>

definition identity_fil :: fil where
  "identity_fil = demo_fil\<lparr>fil_ba := (Float64 [1], Float64 [1])\<rparr>"

definition two_tap_identity_fil :: fil where
  "two_tap_identity_fil = demo_fil\<lparr>fil_ba := (Float64 [1, 0], Float64 [1, 0])\<rparr>"

definition empty_fil :: fil where
  "empty_fil = demo_fil\<lparr>fil_ba := (Float64 [], Float64 [1, 0])\<rparr>"

definition pulse_ui :: ui where
  "pulse_ui = demo_ui\<lparr>ui_N_points := 0, ui_N_start := 0, ui_cmbStimulus := ''Pulse''\<rparr>"

definition fir37 :: fil where
  "fir37 = demo_fil\<lparr>fil_ba := (Float64 (replicate 37 1), Float64 [1, 0])\<rparr>"

definition fir150 :: fil where
  "fir150 = demo_fil\<lparr>fil_ba := (Float64 (replicate 150 1), Float64 [1, 0])\<rparr>"

definition hidden_dc_ui :: ui where
  "hidden_dc_ui = demo_ui\<lparr>ui_DC := 1\<rparr>"

definition gauss_ui :: ui where
  "gauss_ui = demo_ui\<lparr>ui_noise := ''gauss'', ui_noi := 2\<rparr>"

definition uniform_ui :: ui where
  "uniform_ui = demo_ui\<lparr>ui_noise := ''uniform'', ui_noi := 2\<rparr>"

definition noisy_dc_ui :: ui where
  "noisy_dc_ui = demo_ui\<lparr>ui_noise := ''gauss'', ui_noi := 1, ui_DC := 1 / 2\<rparr>"

definition steperr_ui :: ui where
  "steperr_ui = demo_ui\<lparr>ui_cmbStimulus := ''StepErr''\<rparr>"

definition residue_fil :: fil where
  "residue_fil = demo_fil\<lparr>fil_ba := (Complex128 [Complex 4 (2000 * float64_eps), 0], Float64 [1, 0])\<rparr>"

section \<open>Properties\<close>

subsection \<open>The stages of \<^verbatim>\<open>calc\<close>\<close>

lemma time_vector_N: "self_N (snd (time_vector ui fb self)) = total_points ui fb"
  by (simp add: time_vector_def total_points_def calc_n_points_def Let_def)

lemma time_vector_Completed:
  "fil_f_S fb \<noteq> 0 \<Longrightarrow> time_vector ui fb self =
     (Completed, self\<lparr>self_N := total_points ui fb,
        self_t := linspace 0 (real (total_points ui fb) / fil_f_S fb) (total_points ui fb)\<rparr>)"
  by (simp add: time_vector_def total_points_def calc_n_points_def Let_def)

lemma time_vector_Raised:
  "fil_f_S fb = 0 \<Longrightarrow> time_vector ui fb self =
     (Raised ZeroDivisionError, self\<lparr>self_N := total_points ui fb\<rparr>)"
  by (simp add: time_vector_def total_points_def calc_n_points_def Let_def)

lemma length_linspace: "length (linspace a b n) = n"
  by (simp add: linspace_def)

lemma stimulus_unknown:
  "ui_cmbStimulus ui \<notin> set stimuli \<Longrightarrow>
   stimulus lib ui self = (Reported (Unknown_stimulus (ui_cmbStimulus ui)), self)"
  by (simp add: stimulus_def stimuli_def)

lemma stimulus_cases:
  "fst (stimulus lib ui self) = Completed \<longleftrightarrow>
     ui_cmbStimulus ui \<in> set stimuli \<and> \<not> (ui_cmbStimulus ui = ''Pulse'' \<and> self_N self = 0)"
  by (simp add: stimulus_def stimuli_def Let_def)

lemma stimulus_length:
  "stimulus lib ui self = (Completed, self') \<Longrightarrow> length (self_t self) = self_N self \<Longrightarrow>
   length (self_x self') = self_N self \<and> self_N self' = self_N self \<and> self_t self' = self_t self"
  by (auto simp add: stimulus_def Let_def split: if_splits)

lemma stimulus_Completed:
  "ui_cmbStimulus ui \<in> set stimuli \<Longrightarrow> \<not> (ui_cmbStimulus ui = ''Pulse'' \<and> self_N self = 0) \<Longrightarrow>
   stimulus lib ui self = (Completed, snd (stimulus lib ui self))"
  using stimulus_cases [of lib ui self] by (simp add: prod_eq_iff)

lemma stimulus_pulse_empty:
  "ui_cmbStimulus ui = ''Pulse'' \<Longrightarrow> self_N self = 0 \<Longrightarrow>
   stimulus lib ui self = (Raised IndexError, self\<lparr>self_x := []\<rparr>)"
  by (simp add: stimulus_def)

lemma response_usable:
  assumes "2 \<le> min (len (snd (fil_ba fb))) (len (fst (fil_ba fb)))"
  shows "response lib ui fb s =
           (let s' = s\<lparr>self_bb := fst (fil_ba fb), self_aa := snd (fil_ba fb)\<rparr>
            in (Completed, store_response s' (settling_error lib ui s' (apply_filter lib fb s'))))"
  using assms by (simp add: response_def Let_def not_less)

lemma response_degenerate:
  assumes "min (len (snd (fil_ba fb))) (len (fst (fil_ba fb))) < 2"
  shows "response lib ui fb s =
           (Reported No_proper_coefficients, s\<lparr>self_bb := fst (fil_ba fb), self_aa := snd (fil_ba fb)\<rparr>)"
  using assms by (simp add: response_def Let_def)

lemma time_vector_keeps:
  "self_y (snd (time_vector ui fb s)) = self_y s"
  "self_y_i (snd (time_vector ui fb s)) = self_y_i s"
  "self_cmplx (snd (time_vector ui fb s)) = self_cmplx s"
  by (simp_all add: time_vector_def Let_def)

lemma stimulus_keeps:
  "self_y (snd (stimulus lib ui s)) = self_y s"
  "self_y_i (snd (stimulus lib ui s)) = self_y_i s"
  "self_cmplx (snd (stimulus lib ui s)) = self_cmplx s"
  by (simp_all add: stimulus_def Let_def)

lemma stimulus_N: "self_N (snd (stimulus lib ui s)) = self_N s"
  by (simp add: stimulus_def Let_def)

lemma add_noise_keeps:
  "self_y (add_noise lib ui s) = self_y s"
  "self_y_i (add_noise lib ui s) = self_y_i s"
  "self_cmplx (add_noise lib ui s) = self_cmplx s"
  "self_N (add_noise lib ui s) = self_N s"
  "self_t (add_noise lib ui s) = self_t s"
  by (simp_all add: add_noise_def)

lemma add_dc_keeps:
  "self_y (add_dc ui s) = self_y s"
  "self_y_i (add_dc ui s) = self_y_i s"
  "self_cmplx (add_dc ui s) = self_cmplx s"
  "self_N (add_dc ui s) = self_N s"
  "self_t (add_dc ui s) = self_t s"
  by (simp_all add: add_dc_def)

lemma add_dc_always: "add_dc ui s = s\<lparr>self_x := map (\<lambda>v. v + ui_DC ui) (self_x s)\<rparr>"
  by (simp add: add_dc_def truth_of_method_def)

lemma length_iadd_from:
  "length ds = length xs - k \<Longrightarrow> length (iadd_from k xs ds) = length xs"
  by (simp add: iadd_from_def)

lemma iadd_from_before: "n < k \<Longrightarrow> n < length xs \<Longrightarrow> iadd_from k xs ds ! n = xs ! n"
  by (simp add: iadd_from_def nth_append)

lemma iadd_from_after:
  "k \<le> n \<Longrightarrow> n < length xs \<Longrightarrow> length ds = length xs - k \<Longrightarrow>
   iadd_from k xs ds ! n = xs ! n + ds ! (n - k)"
  by (simp add: iadd_from_def nth_append)

lemma length_add_noise:
  "length (self_x s) = self_N s \<Longrightarrow> length (self_x (add_noise lib ui s)) = self_N s"
  by (simp add: add_noise_def length_iadd_from np_random_randn_def np_random_rand_def)

lemma add_noise_nth:
  assumes "length (self_x s) = self_N s" and "n < self_N s"
  shows "self_x (add_noise lib ui s) ! n =
           self_x s ! n +
             (if ui_N_start ui \<le> n then
                (if ui_noise ui = ''gauss'' then ui_noi ui * randn lib (n - ui_N_start ui)
                 else if ui_noise ui = ''uniform'' then ui_noi ui * (rand lib (n - ui_N_start ui) - 0.5)
                 else 0)
              else 0)"
  using assms
  by (simp add: add_noise_def iadd_from_after iadd_from_before np_random_randn_def
      np_random_rand_def not_le)

lemma time_vector_old_x:
  "time_vector ui fb (s\<lparr>self_x := x0\<rparr>) =
     (fst (time_vector ui fb s), (snd (time_vector ui fb s))\<lparr>self_x := x0\<rparr>)"
  by (simp add: time_vector_def Let_def)

lemma stimulus_old_x:
  "fst (stimulus lib ui s) = Completed \<Longrightarrow> stimulus lib ui (s\<lparr>self_x := x0\<rparr>) = stimulus lib ui s"
  by (simp add: stimulus_def Let_def split: if_splits)

lemma length_add_dc: "length (self_x (add_dc ui s)) = length (self_x s)"
  by (simp add: add_dc_always)

lemma before_filter_keeps:
  "self_y (before_filter lib ui fb s) = self_y s"
  "self_y_i (before_filter lib ui fb s) = self_y_i s"
  "self_cmplx (before_filter lib ui fb s) = self_cmplx s"
  by (simp_all add: before_filter_def add_dc_keeps add_noise_keeps stimulus_keeps time_vector_keeps)

lemma before_filter_coefficients:
  "self_bb (before_filter lib ui fb s) = fst (fil_ba fb)"
  "self_aa (before_filter lib ui fb s) = snd (fil_ba fb)"
  by (simp_all add: before_filter_def)

subsection \<open>How a call ends\<close>

lemma calc_generates:
  assumes "generates ui fb"
  shows "calc lib ui fb self = response lib ui fb
           (add_dc ui (add_noise lib ui (snd (stimulus lib ui (snd (time_vector ui fb self))))))"
proof -
  from assms have fs: "fil_f_S fb \<noteq> 0" and st: "ui_cmbStimulus ui \<in> set stimuli"
    and np: "\<not> (ui_cmbStimulus ui = ''Pulse'' \<and> total_points ui fb = 0)"
    by (simp_all add: generates_def)
  obtain s1 where tv: "time_vector ui fb self = (Completed, s1)"
    using time_vector_Completed [OF fs] by blast
  have "self_N s1 = total_points ui fb"
    using time_vector_N [of ui fb self] by (simp add: tv)
  with st np have "\<not> (ui_cmbStimulus ui = ''Pulse'' \<and> self_N s1 = 0)"
    by simp
  from stimulus_Completed [OF st this]
  obtain s2 where sm: "stimulus lib ui s1 = (Completed, s2)"
    by blast
  show ?thesis
    by (simp add: calc_def tv sm)
qed

lemma calc_usable:
  assumes "generates ui fb" and "2 \<le> min (len (snd (fil_ba fb))) (len (fst (fil_ba fb)))"
  shows "calc lib ui fb self =
           (Completed, store_response (before_filter lib ui fb self)
              (settling_error lib ui (before_filter lib ui fb self)
                 (apply_filter lib fb (before_filter lib ui fb self))))"
  by (simp add: calc_generates [OF assms(1)] response_usable [OF assms(2)] before_filter_def Let_def)

lemma calc_degenerate:
  assumes "generates ui fb" and "min (len (snd (fil_ba fb))) (len (fst (fil_ba fb))) < 2"
  shows "calc lib ui fb self = (Reported No_proper_coefficients, before_filter lib ui fb self)"
  by (simp add: calc_generates [OF assms(1)] response_degenerate [OF assms(2)] before_filter_def)

lemma calc_unknown:
  assumes "fil_f_S fb \<noteq> 0" and "ui_cmbStimulus ui \<notin> set stimuli"
  shows "calc lib ui fb self =
           (Reported (Unknown_stimulus (ui_cmbStimulus ui)), snd (time_vector ui fb self))"
  by (simp add: calc_def time_vector_Completed [OF assms(1)] stimulus_unknown [OF assms(2)])

lemma calc_pulse_empty:
  assumes "fil_f_S fb \<noteq> 0" and "ui_cmbStimulus ui = ''Pulse''" and "total_points ui fb = 0"
  shows "calc lib ui fb self = (Raised IndexError, (snd (time_vector ui fb self))\<lparr>self_x := []\<rparr>)"
  using assms(3)
  by (simp add: calc_def time_vector_Completed [OF assms(1)] stimulus_pulse_empty [OF assms(2)])

lemma calc_zero_f_S:
  assumes "fil_f_S fb = 0"
  shows "calc lib ui fb self = (Raised ZeroDivisionError, self\<lparr>self_N := total_points ui fb\<rparr>)"
  by (simp add: calc_def time_vector_Raised [OF assms])

lemma calc_Completed_iff:
  "fst (calc lib ui fb self) = Completed \<longleftrightarrow>
     generates ui fb \<and> 2 \<le> min (len (snd (fil_ba fb))) (len (fst (fil_ba fb)))"
proof (cases "generates ui fb")
  case True
  show ?thesis
  proof (cases "2 \<le> min (len (snd (fil_ba fb))) (len (fst (fil_ba fb)))")
    case usable: True
    show ?thesis
      using True usable by (simp add: calc_usable [OF True usable])
  next
    case short: False
    then have "min (len (snd (fil_ba fb))) (len (fst (fil_ba fb))) < 2"
      by linarith
    from calc_degenerate [OF True this] short show ?thesis
      by simp
  qed
next
  case False
  then consider "fil_f_S fb = 0"
    | "fil_f_S fb \<noteq> 0" "ui_cmbStimulus ui \<notin> set stimuli"
    | "fil_f_S fb \<noteq> 0" "ui_cmbStimulus ui = ''Pulse''" "total_points ui fb = 0"
    by (auto simp: generates_def)
  then show ?thesis
    using False by cases (simp_all add: calc_zero_f_S calc_unknown calc_pulse_empty)
qed

lemma calc_Reported_iff:
  assumes "fil_f_S fb \<noteq> 0"
    and "\<not> (ui_cmbStimulus ui = ''Pulse'' \<and> total_points ui fb = 0)"
  shows "(\<exists>r. fst (calc lib ui fb self) = Reported r) \<longleftrightarrow>
           min (len (snd (fil_ba fb))) (len (fst (fil_ba fb))) < 2 \<or>
           ui_cmbStimulus ui \<notin> set stimuli"
proof (cases "ui_cmbStimulus ui \<in> set stimuli")
  case True
  with assms have g: "generates ui fb"
    by (simp add: generates_def)
  show ?thesis
  proof (cases "2 \<le> min (len (snd (fil_ba fb))) (len (fst (fil_ba fb)))")
    case usable: True
    then show ?thesis
      using True by (simp add: calc_usable [OF g usable] not_less)
  next
    case False
    then have short: "min (len (snd (fil_ba fb))) (len (fst (fil_ba fb))) < 2"
      by linarith
    then show ?thesis
      by (simp add: calc_degenerate [OF g short])
  qed
next
  case False
  then show ?thesis
    by (simp add: calc_unknown [OF assms(1) False])
qed

lemma generates_stages:
  assumes "generates ui fb"
  obtains s1 s2 where "time_vector ui fb self = (Completed, s1)"
    and "stimulus lib ui s1 = (Completed, s2)"
    and "self_N s1 = total_points ui fb" and "length (self_t s1) = total_points ui fb"
    and "self_N s2 = total_points ui fb" and "length (self_t s2) = total_points ui fb"
    and "length (self_x s2) = total_points ui fb"
proof -
  from assms have fs: "fil_f_S fb \<noteq> 0" and st: "ui_cmbStimulus ui \<in> set stimuli"
    and np: "\<not> (ui_cmbStimulus ui = ''Pulse'' \<and> total_points ui fb = 0)"
    by (simp_all add: generates_def)
  obtain s1 where tv: "time_vector ui fb self = (Completed, s1)"
    and N1: "self_N s1 = total_points ui fb" and t1: "length (self_t s1) = total_points ui fb"
    using time_vector_Completed [OF fs, of ui self] by (simp add: length_linspace)
  from st np N1 have "\<not> (ui_cmbStimulus ui = ''Pulse'' \<and> self_N s1 = 0)"
    by simp
  from stimulus_Completed [OF st this]
  obtain s2 where sm: "stimulus lib ui s1 = (Completed, s2)"
    by blast
  from stimulus_length [OF sm] N1 t1
  have "self_N s2 = total_points ui fb" "length (self_t s2) = total_points ui fb"
    "length (self_x s2) = total_points ui fb"
    by simp_all
  with tv sm N1 t1 show thesis
    by (rule that)
qed

lemma before_filter_shape:
  assumes "generates ui fb"
  shows "self_N (before_filter lib ui fb self) = total_points ui fb"
    and "length (self_t (before_filter lib ui fb self)) = total_points ui fb"
    and "length (self_x (before_filter lib ui fb self)) = total_points ui fb"
proof -
  from generates_stages [OF assms, of self lib]
  obtain s1 s2 where tv: "time_vector ui fb self = (Completed, s1)"
    and sm: "stimulus lib ui s1 = (Completed, s2)"
    and s2: "self_N s2 = total_points ui fb" "length (self_t s2) = total_points ui fb"
      "length (self_x s2) = total_points ui fb"
    by metis
  have bf: "before_filter lib ui fb self =
      (add_dc ui (add_noise lib ui s2))\<lparr>self_bb := fst (fil_ba fb), self_aa := snd (fil_ba fb)\<rparr>"
    by (simp add: before_filter_def tv sm)
  show "self_N (before_filter lib ui fb self) = total_points ui fb"
    by (simp add: bf add_dc_keeps add_noise_keeps s2)
  show "length (self_t (before_filter lib ui fb self)) = total_points ui fb"
    by (simp add: bf add_dc_keeps add_noise_keeps s2)
  show "length (self_x (before_filter lib ui fb self)) = total_points ui fb"
    using length_add_noise [of s2 lib ui] by (simp add: bf length_add_dc s2)
qed

lemma before_filter_old_x:
  assumes "generates ui fb"
  shows "before_filter lib ui fb (self\<lparr>self_x := x0\<rparr>) = before_filter lib ui fb self"
proof -
  from generates_stages [OF assms, of self lib]
  obtain s1 s2 where tv: "time_vector ui fb self = (Completed, s1)"
    and sm: "stimulus lib ui s1 = (Completed, s2)"
    by metis
  from sm have "stimulus lib ui (s1\<lparr>self_x := x0\<rparr>) = stimulus lib ui s1"
    by (intro stimulus_old_x) simp
  then show ?thesis
    by (simp add: before_filter_def time_vector_old_x tv)
qed

lemma generates_nonempty_b:
  assumes "fil_f_S fb \<noteq> 0" and "ui_cmbStimulus ui \<in> set stimuli" and "0 < len (fst (fil_ba fb))"
  shows "generates ui fb"
  using assms by (simp add: generates_def total_points_def calc_n_points_def)

lemma usable_generates:
  assumes "fil_f_S fb \<noteq> 0" and "ui_cmbStimulus ui \<in> set stimuli"
    and "2 \<le> min (len (snd (fil_ba fb))) (len (fst (fil_ba fb)))"
  shows "generates ui fb"
  using assms by (intro generates_nonempty_b) simp_all

subsection \<open>What is stored\<close>

lemma len_real_if_close: "len (real_if_close y tol) = len y"
  by (cases y) (simp_all add: Let_def)

lemma len_nd_sub: "len (nd_sub y c) = len y"
  by (cases y) simp_all

lemma len_settling_error: "len (settling_error lib ui s y) = len y"
  by (simp add: settling_error_def len_nd_sub Let_def)

lemma length_nd_real: "length (nd_real y) = len y"
  by (cases y) simp_all

lemma length_nd_imag: "length (nd_imag y) = len y"
  by (cases y) simp_all

lemma length_samples: "length (samples y) = len y"
  by (cases y) simp_all

lemma len_apply_filter:
  "shape_preserving lib \<Longrightarrow> len (apply_filter lib fb s) = length (self_x s)"
  by (simp add: apply_filter_def shape_preserving_def Let_def)

lemma store_response_keeps:
  "self_N (store_response s y) = self_N s"
  "self_t (store_response s y) = self_t s"
  "self_x (store_response s y) = self_x s"
  by (simp_all add: store_response_def Let_def)

lemma store_response_shape:
  "len (self_y (store_response s y)) = len y"
  "self_y_i (store_response s y) \<noteq> None \<longleftrightarrow> self_cmplx (store_response s y)"
  "self_y_i (store_response s y) = Some yi \<Longrightarrow> len yi = len y"
  by (auto simp add: store_response_def Let_def len_real_if_close length_nd_real length_nd_imag
      split: if_splits)

lemma store_response_float:
  "store_response s (Float64 xs) = s\<lparr>self_cmplx := False, self_y := Float64 xs, self_y_i := None\<rparr>"
  by (simp add: store_response_def np_any_def list_ex_iff)

lemma real_if_close_cases:
  "real_if_close y 1000 = (if imag_below_tol y then Float64 (nd_real y) else y)"
proof (cases y)
  case (Float64 xs)
  then show ?thesis
    by (simp add: imag_below_tol_def list_all_iff float64_eps_def)
next
  case (Complex128 zs)
  then show ?thesis
    by (simp add: imag_below_tol_def mult.commute)
qed

lemma not_below_tol_iscomplex:
  assumes "\<not> imag_below_tol y"
  shows "np_any (np_iscomplex y)"
proof (cases y)
  case (Float64 xs)
  with assms show ?thesis
    by (simp add: imag_below_tol_def list_all_iff float64_eps_def)
next
  case (Complex128 zs)
  with assms obtain z where z: "z \<in> set zs" "\<not> \<bar>Im z\<bar> < 1000 * float64_eps"
    by (auto simp: imag_below_tol_def list_all_iff)
  have "0 < 1000 * float64_eps"
    by (simp add: float64_eps_def)
  with z(2) have "Im z \<noteq> 0"
    by auto
  with z(1) Complex128 show ?thesis
    by (auto simp: np_any_def list_ex_iff)
qed

lemma np_any_iscomplex_iff: "np_any (np_iscomplex y) \<longleftrightarrow> (\<exists>v \<in> set (nd_imag y). v \<noteq> 0)"
  by (cases y) (auto simp: np_any_def list_ex_iff)

lemma fold_max_ge_init: "m \<le> fold max xs (m::real)"
proof (induction xs arbitrary: m)
  case Nil
  show ?case by simp
next
  case (Cons x xs)
  have "m \<le> max x m" by simp
  also have "\<dots> \<le> fold max xs (max x m)" by (rule Cons.IH)
  finally show ?case by simp
qed

lemma fold_max_ge: "x \<in> set xs \<Longrightarrow> x \<le> fold max xs (m::real)"
proof (induction xs arbitrary: m)
  case Nil
  then show ?case by simp
next
  case (Cons a xs)
  show ?case
  proof (cases "x = a")
    case True
    have "x \<le> max a m" by (simp add: True)
    also have "\<dots> \<le> fold max xs (max a m)" by (rule fold_max_ge_init)
    finally show ?thesis by simp
  next
    case False
    with Cons.prems have "x \<in> set xs" by simp
    then show ?thesis by (simp add: Cons.IH)
  qed
qed

subsection \<open>Evaluating the instance\<close>

lemma direct_lib_simps:
  "sosfilt direct_lib sos x =
     fold (\<lambda>s. lfilter_direct (Complex128 (take 3 s)) (Complex128 (drop 3 s))) sos x"
  "filtfilt direct_lib = filtfilt_zi"
  "lfilter direct_lib = lfilter_direct"
  "freqz direct_lib b a w = poly_zinv (samples b) (cis w) / poly_zinv (samples a) (cis w)"
  "randn direct_lib k = 1"
  "rand direct_lib k = 3 / 4"
  by (simp_all add: direct_lib_def)

lemma demo_ui_simps:
  "ui_N_points demo_ui = 2" "ui_N_start demo_ui = 1" "ui_cmbStimulus demo_ui = ''Step''"
  "ui_A1 demo_ui = 1" "ui_noise demo_ui = ''none''" "ui_noi demo_ui = 0" "ui_DC demo_ui = 0"
  "visible (ui_ledDC demo_ui) = False"
  by (simp_all add: demo_ui_def)

lemmas calc_defs = calc_def time_vector_def stimulus_def add_noise_def add_dc_def response_def
  apply_filter_def settling_error_def store_response_def calc_n_points_def linspace_def
  iadd_from_def np_random_randn_def np_random_rand_def truth_of_method_def isVisible_def np_any_def

lemma demo_generates: "fil_f_S fb = 1 \<Longrightarrow> generates demo_ui fb"
  by (simp add: generates_def demo_ui_def stimuli_def total_points_def calc_n_points_def)

lemma demo_before_filter:
  "fil_f_S fb = 1 \<Longrightarrow> before_filter lib demo_ui fb demo_self =
     demo_self\<lparr>self_N := 3, self_t := [0, 1, 2], self_x := [1, 1, 1],
       self_title_str := ''Step Response'', self_bb := fst (fil_ba fb), self_aa := snd (fil_ba fb)\<rparr>"
  by (simp add: before_filter_def calc_defs demo_ui_def demo_self_def Let_def upt_rec numeral_3_eq_3)

lemma demo_x: "fil_f_S fb = 1 \<Longrightarrow> self_x (before_filter lib demo_ui fb demo_self) = [1, 1, 1]"
  by (simp add: demo_before_filter)

lemma self_y_store_response:
  "self_y (store_response s y0) =
     (if np_any (np_iscomplex (real_if_close y0 1000)) then Float64 (nd_real (real_if_close y0 1000))
      else real_if_close y0 1000)"
  by (simp add: store_response_def Let_def)

lemmas demo_eval = self_y_store_response settling_error_def demo_ui_simps demo_x direct_lib_simps
  lfilter_direct_def dot_def np_any_def float64_eps_def filtfilt_zi_def forward_backward_def
  pad_zeros_def lfilter_zi_def Let_def

lemma demo_fil_simps:
  "fil_f_S demo_fil = 1" "fil_ba demo_fil = (Float64 [1, 1], Float64 [1, 0])"
  "fil_sos demo_fil = []" "fil_ft demo_fil = ''FIR''" "fil_has_zpkA demo_fil = False"
  by (simp_all add: demo_fil_def)

lemma demo_self_simps:
  "self_x demo_self = []" "self_y demo_self = Float64 []" "self_y_i demo_self = None"
  "self_cmplx demo_self = False" "self_N demo_self = 0" "self_t demo_self = []"
  by (simp_all add: demo_self_def)

lemma residue_fil_simps:
  "fil_f_S residue_fil = 1"
  "fil_ba residue_fil = (Complex128 [Complex 4 (2000 * float64_eps), 0], Float64 [1, 0])"
  "fil_sos residue_fil = []" "fil_has_zpkA residue_fil = False"
  by (simp_all add: residue_fil_def demo_fil_def)

lemma dot_zero: "dot [0] hs = 0"
  by (cases hs) (simp_all add: dot_def)

lemma dot_one_zero: "dot [1, 0] (x # xh) = x"
  by (cases xh) (simp_all add: dot_def)

lemma direct_form_identity: "direct_form [1, 0] 1 [0] xh yh xs = xs"
  by (induction xs arbitrary: xh yh) (simp_all add: dot_zero dot_one_zero)

lemma lfilter_direct_identity:
  "lfilter_direct (Float64 [1, 0]) (Float64 [1, 0]) (Float64 xs) = Float64 xs"
  by (simp add: lfilter_direct_def direct_form_identity o_def)

lemma length_direct_form: "length (direct_form b a0 a1 xh yh xs) = length xs"
  by (induction xs arbitrary: xh yh) (simp_all add: Let_def)

lemma len_lfilter_direct: "len (lfilter_direct b a x) = len x"
  by (simp add: lfilter_direct_def length_direct_form length_samples Let_def split: list.splits)

lemma length_transposed_form: "length (transposed_form b0 b1 a1 z xs) = length xs"
  by (induction xs arbitrary: z) (simp_all add: Let_def)

lemma length_forward_backward: "length (forward_backward b a x) = length x"
  by (simp add: forward_backward_def length_transposed_form Let_def split: list.splits)

lemma len_filtfilt_zi: "len (filtfilt_zi b a x) = len x"
  by (simp add: filtfilt_zi_def length_forward_backward length_samples Let_def)

lemma len_fold_lfilter_direct:
  "len (fold (\<lambda>s. lfilter_direct (Complex128 (take 3 s)) (Complex128 (drop 3 s))) sos x) = len x"
  by (induction sos arbitrary: x) (simp_all add: len_lfilter_direct)

lemma shape_preserving_direct_lib: "shape_preserving direct_lib"
  by (simp add: shape_preserving_def direct_lib_simps len_fold_lfilter_direct len_filtfilt_zi
      len_lfilter_direct)

lemma residue_response:
  "settling_error direct_lib demo_ui (before_filter direct_lib demo_ui residue_fil demo_self)
     (apply_filter direct_lib residue_fil (before_filter direct_lib demo_ui residue_fil demo_self)) =
   Complex128 [Complex 4 (2000 * float64_eps), Complex 4 (2000 * float64_eps),
     Complex 4 (2000 * float64_eps)]"
proof -
  have f: "fil_f_S residue_fil = 1"
    by (simp add: residue_fil_def demo_fil_def)
  show ?thesis
    by (simp add: settling_error_def demo_ui_simps apply_filter_def demo_x [OF f]
        before_filter_coefficients direct_lib_simps residue_fil_simps lfilter_direct_def dot_def
        Let_def)
qed

lemma residue_scale:
  "4 \<le> signal_scale (Complex128 [Complex 4 (2000 * float64_eps), Complex 4 (2000 * float64_eps),
     Complex 4 (2000 * float64_eps)])"
proof -
  have "\<bar>Re (Complex 4 (2000 * float64_eps))\<bar> \<le> cmod (Complex 4 (2000 * float64_eps))"
    by (rule abs_Re_le_cmod)
  then have "4 \<le> cmod (Complex 4 (2000 * float64_eps))"
    by simp
  also have "\<dots> \<le> signal_scale (Complex128 [Complex 4 (2000 * float64_eps),
      Complex 4 (2000 * float64_eps), Complex 4 (2000 * float64_eps)])"
    unfolding signal_scale_def by (rule fold_max_ge) simp
  finally show ?thesis .
qed

section \<open>The claims\<close>

text \<open>
  C1. For every call with usable coefficients (with a known stimulus and a sampling
  frequency that is not zero, so that the filter is reached), the filter is chosen in
  this order: with a non-empty list of second-order sections and a filter
  that is not anti-causal, \<open>y\<close> is \<open>sosfilt\<close> applied to \<open>x\<close>; otherwise, with an
  anti-causal filter, \<open>y\<close> is \<open>filtfilt\<close> of \<open>(b, a)\<close> applied to \<open>x\<close>, whether the list
  of sections is empty or not; otherwise \<open>y\<close> is \<open>lfilter\<close> of \<open>(b, a)\<close> applied to \<open>x\<close>.
  The call runs to its end, and what it stores is made of that \<open>y\<close> by lines 302-313.
\<close>

theorem calc_filter_priority:
  assumes "fil_f_S fb \<noteq> 0" and "ui_cmbStimulus ui \<in> set stimuli"
    and "2 \<le> min (len (snd (fil_ba fb))) (len (fst (fil_ba fb)))"
  shows "(fil_sos fb \<noteq> [] \<and> \<not> fil_has_zpkA fb \<longrightarrow>
            calc lib ui fb self =
              (Completed, store_response (before_filter lib ui fb self)
                 (settling_error lib ui (before_filter lib ui fb self)
                    (sosfilt lib (fil_sos fb) (Float64 (self_x (before_filter lib ui fb self))))))) \<and>
         (fil_has_zpkA fb \<longrightarrow>
            calc lib ui fb self =
              (Completed, store_response (before_filter lib ui fb self)
                 (settling_error lib ui (before_filter lib ui fb self)
                    (filtfilt lib (fst (fil_ba fb)) (snd (fil_ba fb))
                       (Float64 (self_x (before_filter lib ui fb self))))))) \<and>
         (fil_sos fb = [] \<and> \<not> fil_has_zpkA fb \<longrightarrow>
            calc lib ui fb self =
              (Completed, store_response (before_filter lib ui fb self)
                 (settling_error lib ui (before_filter lib ui fb self)
                    (lfilter lib (fst (fil_ba fb)) (snd (fil_ba fb))
                       (Float64 (self_x (before_filter lib ui fb self)))))))"
proof -
  have bb: "self_bb (before_filter lib ui fb self) = fst (fil_ba fb)"
    and aa: "self_aa (before_filter lib ui fb self) = snd (fil_ba fb)"
    by (simp_all add: before_filter_def)
  show ?thesis
    by (simp add: calc_usable [OF usable_generates [OF assms] assms(3)] apply_filter_def bb aa)
qed

theorem calc_filter_priority_witness:
  "fil_f_S demo_fil \<noteq> 0 \<and> ui_cmbStimulus demo_ui \<in> set stimuli \<and>
   2 \<le> min (len (snd (fil_ba demo_fil))) (len (fst (fil_ba demo_fil))) \<and>
   fil_sos demo_fil_sos \<noteq> [] \<and> \<not> fil_has_zpkA demo_fil_sos \<and>
   self_y (snd (calc direct_lib demo_ui demo_fil_sos demo_self)) = Float64 [2, 2, 2] \<and>
   fil_sos demo_fil_anticausal \<noteq> [] \<and> fil_has_zpkA demo_fil_anticausal \<and>
   self_y (snd (calc direct_lib demo_ui demo_fil_anticausal demo_self)) = Float64 [4, 4, 4] \<and>
   fil_sos demo_fil = [] \<and> \<not> fil_has_zpkA demo_fil \<and>
   self_y (snd (calc direct_lib demo_ui demo_fil demo_self)) = Float64 [1, 2, 2]"
proof -
  have f: "fil_f_S demo_fil \<noteq> 0" "fil_f_S demo_fil_sos \<noteq> 0" "fil_f_S demo_fil_anticausal \<noteq> 0"
    by (simp_all add: demo_fil_def demo_fil_sos_def demo_fil_anticausal_def)
  have st: "ui_cmbStimulus demo_ui \<in> set stimuli"
    by (simp add: demo_ui_simps stimuli_def)
  have u: "2 \<le> min (len (snd (fil_ba demo_fil))) (len (fst (fil_ba demo_fil)))"
    "2 \<le> min (len (snd (fil_ba demo_fil_sos))) (len (fst (fil_ba demo_fil_sos)))"
    "2 \<le> min (len (snd (fil_ba demo_fil_anticausal))) (len (fst (fil_ba demo_fil_anticausal)))"
    by (simp_all add: demo_fil_def demo_fil_sos_def demo_fil_anticausal_def)
  have 1: "self_y (snd (calc direct_lib demo_ui demo_fil_sos demo_self)) = Float64 [2, 2, 2]"
    using calc_filter_priority [OF f(2) st u(2), of direct_lib demo_self]
    by (simp add: demo_fil_sos_def demo_fil_def demo_eval)
  have 2: "self_y (snd (calc direct_lib demo_ui demo_fil_anticausal demo_self)) = Float64 [4, 4, 4]"
    using calc_filter_priority [OF f(3) st u(3), of direct_lib demo_self]
    by (simp add: demo_fil_anticausal_def demo_fil_sos_def demo_fil_def demo_eval)
  have 3: "self_y (snd (calc direct_lib demo_ui demo_fil demo_self)) = Float64 [1, 2, 2]"
    using calc_filter_priority [OF f(1) st u(1), of direct_lib demo_self]
    by (simp add: demo_fil_def demo_eval)
  show ?thesis
    using st 1 2 3 by (simp add: demo_fil_def demo_fil_sos_def demo_fil_anticausal_def)
qed

text \<open>
  C2. As stated the claim fails: for the identity filter \<open>b = [1]\<close>, \<open>a = [1]\<close> the call
  does not run to its end. The guard of line 285 takes a filter with fewer than two
  coefficients for one without proper coefficients, logs the error and returns; the
  stimulus is stored and \<open>y\<close> is left as it was.
\<close>

theorem identity_filter_counterexample:
  "fst (calc direct_lib demo_ui identity_fil demo_self) = Reported No_proper_coefficients \<and>
   self_x (snd (calc direct_lib demo_ui identity_fil demo_self)) = [1, 1, 1] \<and>
   self_y (snd (calc direct_lib demo_ui identity_fil demo_self)) = Float64 []"
proof -
  have f: "fil_f_S identity_fil = 1"
    by (simp add: identity_fil_def demo_fil_def)
  have "min (len (snd (fil_ba identity_fil))) (len (fst (fil_ba identity_fil))) < 2"
    by (simp add: identity_fil_def)
  from calc_degenerate [OF demo_generates [OF f] this, of direct_lib demo_self]
  show ?thesis
    by (simp add: demo_before_filter [OF f] demo_self_simps)
qed

text \<open>
  C2, amended. For a sampling frequency that is not zero and every known stimulus, a
  call with \<open>b = [1]\<close>, \<open>a = [1]\<close> reports that there are no proper coefficients and
  leaves \<open>y\<close>, \<open>y_i\<close> and \<open>cmplx\<close> unchanged. The identity filter with two
  coefficients each, \<open>b = [1, 0]\<close>, \<open>a = [1, 0]\<close>, with no sections and not anti-causal,
  runs to its end with \<open>y\<close> equal to \<open>x\<close> for every stimulus but the settling error,
  when \<open>lfilter\<close> is the difference equation of its documentation.
\<close>

theorem identity_filter_amended:
  assumes "fil_f_S fb \<noteq> 0" and "ui_cmbStimulus ui \<in> set stimuli"
  shows "(fil_ba fb = (Float64 [1], Float64 [1]) \<longrightarrow>
            fst (calc lib ui fb self) = Reported No_proper_coefficients \<and>
            self_y (snd (calc lib ui fb self)) = self_y self \<and>
            self_y_i (snd (calc lib ui fb self)) = self_y_i self \<and>
            self_cmplx (snd (calc lib ui fb self)) = self_cmplx self) \<and>
         (fil_ba fb = (Float64 [1, 0], Float64 [1, 0]) \<and> fil_sos fb = [] \<and> \<not> fil_has_zpkA fb \<and>
          ui_cmbStimulus ui \<noteq> ''StepErr'' \<and> lfilter lib = lfilter_direct \<longrightarrow>
            fst (calc lib ui fb self) = Completed \<and>
            self_y (snd (calc lib ui fb self)) = Float64 (self_x (snd (calc lib ui fb self))) \<and>
            self_y_i (snd (calc lib ui fb self)) = None \<and>
            \<not> self_cmplx (snd (calc lib ui fb self)))"
proof (intro conjI impI)
  assume ba: "fil_ba fb = (Float64 [1], Float64 [1])"
  then have g: "generates ui fb"
    using assms by (intro generates_nonempty_b) simp_all
  have short: "min (len (snd (fil_ba fb))) (len (fst (fil_ba fb))) < 2"
    by (simp add: ba)
  note c = calc_degenerate [OF g short, of lib self]
  show "fst (calc lib ui fb self) = Reported No_proper_coefficients"
    by (simp add: c)
  show "self_y (snd (calc lib ui fb self)) = self_y self"
    by (simp add: c before_filter_keeps)
  show "self_y_i (snd (calc lib ui fb self)) = self_y_i self"
    by (simp add: c before_filter_keeps)
  show "self_cmplx (snd (calc lib ui fb self)) = self_cmplx self"
    by (simp add: c before_filter_keeps)
next
  assume h: "fil_ba fb = (Float64 [1, 0], Float64 [1, 0]) \<and> fil_sos fb = [] \<and> \<not> fil_has_zpkA fb \<and>
    ui_cmbStimulus ui \<noteq> ''StepErr'' \<and> lfilter lib = lfilter_direct"
  then have g: "generates ui fb"
    using assms by (intro generates_nonempty_b) simp_all
  have usable: "2 \<le> min (len (snd (fil_ba fb))) (len (fst (fil_ba fb)))"
    using h by simp
  have c: "calc lib ui fb self =
      (Completed, store_response (before_filter lib ui fb self)
         (Float64 (self_x (before_filter lib ui fb self))))"
    using h
    by (simp add: calc_usable [OF g usable] settling_error_def apply_filter_def
        before_filter_coefficients lfilter_direct_identity)
  show "fst (calc lib ui fb self) = Completed"
    by (simp add: c)
  show "self_y (snd (calc lib ui fb self)) = Float64 (self_x (snd (calc lib ui fb self)))"
    by (simp add: c store_response_float)
  show "self_y_i (snd (calc lib ui fb self)) = None"
    by (simp add: c store_response_float)
  show "\<not> self_cmplx (snd (calc lib ui fb self))"
    by (simp add: c store_response_float)
qed

theorem identity_filter_amended_witness:
  "fil_f_S identity_fil \<noteq> 0 \<and> ui_cmbStimulus demo_ui \<in> set stimuli \<and>
   fil_ba identity_fil = (Float64 [1], Float64 [1]) \<and>
   fst (calc direct_lib demo_ui identity_fil demo_self) = Reported No_proper_coefficients \<and>
   self_y (snd (calc direct_lib demo_ui identity_fil demo_self)) = Float64 [] \<and>
   fil_ba two_tap_identity_fil = (Float64 [1, 0], Float64 [1, 0]) \<and>
   fst (calc direct_lib demo_ui two_tap_identity_fil demo_self) = Completed \<and>
   self_y (snd (calc direct_lib demo_ui two_tap_identity_fil demo_self)) =
     Float64 (self_x (snd (calc direct_lib demo_ui two_tap_identity_fil demo_self)))"
proof -
  have 1: "fil_f_S identity_fil \<noteq> 0" "fil_f_S two_tap_identity_fil \<noteq> 0"
    by (simp_all add: identity_fil_def two_tap_identity_fil_def demo_fil_def)
  have 2: "ui_cmbStimulus demo_ui \<in> set stimuli"
    by (simp add: demo_ui_simps stimuli_def)
  show ?thesis
    using 1 2 identity_filter_amended [OF 1(1) 2, of direct_lib demo_self]
      identity_filter_amended [OF 1(2) 2, of direct_lib demo_self]
    by (simp add: identity_fil_def two_tap_identity_fil_def demo_fil_def demo_self_simps
        demo_ui_simps direct_lib_simps)
qed

text \<open>
  C3. The claim says that a call fails, by a reported error and without an exception,
  exactly when \<open>min(len(a), len(b)) < 2\<close> or the stimulus is unknown. The code misses a
  case: with an empty numerator of an FIR filter, the point count left to the heuristic
  (which gives \<open>min(len(b), 100) = 0\<close>), no start-up and the stimulus \<^verbatim>\<open>"Pulse"\<close>,
  line 233 assigns to element 0 of an empty array and raises \<^verbatim>\<open>IndexError\<close>,
  before the guard of line 285 is reached.
\<close>

theorem calc_pulse_without_points_raises:
  "fst (calc direct_lib pulse_ui empty_fil demo_self) = Raised IndexError \<and>
   min (len (snd (fil_ba empty_fil))) (len (fst (fil_ba empty_fil))) < 2"
proof -
  have "fil_f_S empty_fil \<noteq> 0" "ui_cmbStimulus pulse_ui = ''Pulse''"
    "total_points pulse_ui empty_fil = 0"
    by (simp_all add: empty_fil_def pulse_ui_def demo_fil_def demo_ui_def total_points_def
        calc_n_points_def)
  from calc_pulse_empty [OF this, of direct_lib demo_self] show ?thesis
    by (simp add: empty_fil_def)
qed

text \<open>
  C4. With a requested point count of 0 the count is 100 for an IIR filter and
  \<open>min(len(b), 100)\<close> otherwise (37 for 37 coefficients, 100 for 150); a count that is not
  0 is taken as it is; and however the call ends, \<^verbatim>\<open>self.N\<close> is that count plus
  \<^verbatim>\<open>N_start\<close>.
\<close>

theorem resolved_point_count:
  "calc_n_points fb 0 =
     (if fil_ft fb = ''IIR'' then 100 else min (len (fst (fil_ba fb))) 100) \<and>
   (fil_ft fb \<noteq> ''IIR'' \<and> len (fst (fil_ba fb)) = 37 \<longrightarrow> calc_n_points fb 0 = 37) \<and>
   (fil_ft fb \<noteq> ''IIR'' \<and> len (fst (fil_ba fb)) = 150 \<longrightarrow> calc_n_points fb 0 = 100) \<and>
   (N_user \<noteq> 0 \<longrightarrow> calc_n_points fb N_user = N_user) \<and>
   self_N (snd (calc lib ui fb self)) =
     (if ui_N_points ui = 0
      then (if fil_ft fb = ''IIR'' then 100 else min (len (fst (fil_ba fb))) 100)
      else ui_N_points ui) + ui_N_start ui"
proof -
  have "self_N (snd (calc lib ui fb self)) = total_points ui fb"
  proof (cases "generates ui fb")
    case True
    show ?thesis
    proof (cases "2 \<le> min (len (snd (fil_ba fb))) (len (fst (fil_ba fb)))")
      case usable: True
      show ?thesis
        by (simp add: calc_usable [OF True usable] store_response_def Let_def before_filter_def
            add_dc_keeps add_noise_keeps stimulus_N time_vector_N)
    next
      case False
      then have short: "min (len (snd (fil_ba fb))) (len (fst (fil_ba fb))) < 2"
        by linarith
      show ?thesis
        by (simp add: calc_degenerate [OF True short] before_filter_def
            add_dc_keeps add_noise_keeps stimulus_N time_vector_N)
    qed
  next
    case False
    then consider "fil_f_S fb = 0"
      | "fil_f_S fb \<noteq> 0" "ui_cmbStimulus ui \<notin> set stimuli"
      | "fil_f_S fb \<noteq> 0" "ui_cmbStimulus ui = ''Pulse''" "total_points ui fb = 0"
      by (auto simp: generates_def)
    then show ?thesis
      by cases (simp_all add: calc_zero_f_S calc_unknown calc_pulse_empty time_vector_N)
  qed
  then show ?thesis
    by (simp add: total_points_def calc_n_points_def)
qed

theorem resolved_point_count_witness:
  "calc_n_points fir37 0 = 37 \<and> calc_n_points fir150 0 = 100 \<and>
   calc_n_points (demo_fil\<lparr>fil_ft := ''IIR''\<rparr>) 0 = 100 \<and>
   (5::nat) \<noteq> 0 \<and> calc_n_points demo_fil 5 = 5 \<and>
   self_N (snd (calc direct_lib demo_ui demo_fil demo_self)) = 2 + 1 \<and>
   self_N (snd (calc direct_lib pulse_ui demo_fil demo_self)) = 2 + 0"
  using resolved_point_count [of fir37 5 direct_lib demo_ui demo_self]
    resolved_point_count [of fir150 5 direct_lib demo_ui demo_self]
    resolved_point_count [of "demo_fil\<lparr>fil_ft := ''IIR''\<rparr>" 5 direct_lib demo_ui demo_self]
    resolved_point_count [of demo_fil 5 direct_lib demo_ui demo_self]
    resolved_point_count [of demo_fil 5 direct_lib pulse_ui demo_self]
  by (simp add: fir37_def fir150_def demo_fil_def demo_ui_def pulse_ui_def)

text \<open>
  C5. As stated the claim fails: \<^verbatim>\<open>np.real_if_close\<close> compares the imaginary parts
  with \<open>1000 eps\<close> itself, not with \<open>1000 eps\<close> times the scale of the signal. A unit step
  through the numerator \<open>[4 + 2000 eps j, 0]\<close> gives samples \<open>4 + 2000 eps j\<close>: each
  imaginary part is below \<open>1000 eps\<close> relative to the signal (of magnitude 4 and more),
  and the response is stored as complex with its imaginary part.
\<close>

theorem complex_cleanup_relative_counterexample:
  "spec_imag_negligible
     (settling_error direct_lib demo_ui (before_filter direct_lib demo_ui residue_fil demo_self)
        (apply_filter direct_lib residue_fil
           (before_filter direct_lib demo_ui residue_fil demo_self))) \<and>
   fst (calc direct_lib demo_ui residue_fil demo_self) = Completed \<and>
   self_cmplx (snd (calc direct_lib demo_ui residue_fil demo_self)) \<and>
   self_y_i (snd (calc direct_lib demo_ui residue_fil demo_self)) =
     Some (Float64 [2000 * float64_eps, 2000 * float64_eps, 2000 * float64_eps])"
proof -
  have f: "fil_f_S residue_fil = 1"
    by (simp add: residue_fil_def demo_fil_def)
  have u: "2 \<le> min (len (snd (fil_ba residue_fil))) (len (fst (fil_ba residue_fil)))"
    by (simp add: residue_fil_def)
  have e: "0 < float64_eps"
    by (simp add: float64_eps_def)
  have "2000 * float64_eps < 1000 * float64_eps * 4"
    using e by simp
  also have "\<dots> \<le> 1000 * float64_eps * signal_scale (Complex128 [Complex 4 (2000 * float64_eps),
      Complex 4 (2000 * float64_eps), Complex 4 (2000 * float64_eps)])"
    using e residue_scale by (intro mult_left_mono) simp_all
  finally have neg: "spec_imag_negligible (Complex128 [Complex 4 (2000 * float64_eps),
      Complex 4 (2000 * float64_eps), Complex 4 (2000 * float64_eps)])"
    using e by (simp add: spec_imag_negligible_def)
  have "\<not> 2000 * float64_eps < 1000 * float64_eps"
    using e by simp
  then have st: "store_response s (Complex128 [Complex 4 (2000 * float64_eps),
      Complex 4 (2000 * float64_eps), Complex 4 (2000 * float64_eps)]) =
      s\<lparr>self_cmplx := True,
        self_y_i := Some (Float64 [2000 * float64_eps, 2000 * float64_eps, 2000 * float64_eps]),
        self_y := Float64 [4, 4, 4]\<rparr>" for s
    using e by (simp add: store_response_def np_any_def mult.commute)
  show ?thesis
    using neg by (simp add: calc_usable [OF demo_generates [OF f] u] residue_response st)
qed

text \<open>
  C5, amended. After filtering, if the imaginary part of every sample is below
  \<open>1000 eps\<close> in absolute value, then \<open>cmplx\<close> is false, \<open>y_i\<close> is \<^verbatim>\<open>None\<close> and \<open>y\<close> is
  the real sequence; otherwise \<open>cmplx\<close> is true, \<open>y\<close> is the real part and \<open>y_i\<close> the
  imaginary part, sample by sample. In both cases \<open>cmplx\<close> is true exactly when some
  sample has an imaginary part that is not zero after \<^verbatim>\<open>np.real_if_close\<close>.
\<close>

theorem complex_cleanup_absolute:
  assumes "fil_f_S fb \<noteq> 0" and "ui_cmbStimulus ui \<in> set stimuli"
    and "2 \<le> min (len (snd (fil_ba fb))) (len (fst (fil_ba fb)))"
    and "s = before_filter lib ui fb self"
    and "r = settling_error lib ui s (apply_filter lib fb s)"
    and "s' = snd (calc lib ui fb self)"
  shows "fst (calc lib ui fb self) = Completed \<and>
         (imag_below_tol r \<longrightarrow>
            \<not> self_cmplx s' \<and> self_y_i s' = None \<and> self_y s' = Float64 (nd_real r)) \<and>
         (\<not> imag_below_tol r \<longrightarrow>
            self_cmplx s' \<and> self_y s' = Float64 (nd_real r) \<and>
            self_y_i s' = Some (Float64 (nd_imag r))) \<and>
         (self_cmplx s' \<longleftrightarrow> (\<exists>v \<in> set (nd_imag (real_if_close r 1000)). v \<noteq> 0))"
proof -
  have c: "calc lib ui fb self = (Completed, store_response s r)"
    by (simp add: calc_usable [OF usable_generates [OF assms(1-3)] assms(3)] assms(4,5))
  have s': "s' = store_response s r"
    by (simp add: assms(6) c)
  have cm: "self_cmplx s' \<longleftrightarrow> np_any (np_iscomplex (real_if_close r 1000))"
    by (simp add: s' store_response_def Let_def)
  have close: "\<not> self_cmplx s' \<and> self_y_i s' = None \<and> self_y s' = Float64 (nd_real r)"
    if "imag_below_tol r"
    using that
    by (simp add: s' store_response_def Let_def real_if_close_cases np_any_def list_ex_iff)
  have far: "self_cmplx s' \<and> self_y s' = Float64 (nd_real r) \<and>
      self_y_i s' = Some (Float64 (nd_imag r))"
    if "\<not> imag_below_tol r"
    using that not_below_tol_iscomplex [OF that]
    by (simp add: s' store_response_def Let_def real_if_close_cases)
  from c close far cm show ?thesis
    by (simp add: np_any_iscomplex_iff)
qed

theorem complex_cleanup_absolute_witness:
  "fil_f_S residue_fil \<noteq> 0 \<and> ui_cmbStimulus demo_ui \<in> set stimuli \<and>
   2 \<le> min (len (snd (fil_ba residue_fil))) (len (fst (fil_ba residue_fil))) \<and>
   \<not> imag_below_tol (Complex128 [Complex 4 (2000 * float64_eps), Complex 4 (2000 * float64_eps),
     Complex 4 (2000 * float64_eps)]) \<and>
   self_cmplx (snd (calc direct_lib demo_ui residue_fil demo_self)) \<and>
   self_y (snd (calc direct_lib demo_ui residue_fil demo_self)) = Float64 [4, 4, 4] \<and>
   imag_below_tol (Float64 [1, 2, 2]) \<and>
   \<not> self_cmplx (snd (calc direct_lib demo_ui demo_fil demo_self)) \<and>
   self_y_i (snd (calc direct_lib demo_ui demo_fil demo_self)) = None"
proof -
  have f: "fil_f_S residue_fil = 1"
    by (simp add: residue_fil_def demo_fil_def)
  have u: "2 \<le> min (len (snd (fil_ba residue_fil))) (len (fst (fil_ba residue_fil)))"
    by (simp add: residue_fil_def)
  have e: "0 < float64_eps"
    by (simp add: float64_eps_def)
  have far: "\<not> imag_below_tol (Complex128 [Complex 4 (2000 * float64_eps),
      Complex 4 (2000 * float64_eps), Complex 4 (2000 * float64_eps)])"
    using e by (simp add: imag_below_tol_def)
  have f2: "fil_f_S demo_fil = 1" and u2: "2 \<le> min (len (snd (fil_ba demo_fil))) (len (fst (fil_ba demo_fil)))"
    by (simp_all add: demo_fil_simps)
  have r2: "settling_error direct_lib demo_ui (before_filter direct_lib demo_ui demo_fil demo_self)
     (apply_filter direct_lib demo_fil (before_filter direct_lib demo_ui demo_fil demo_self)) =
     Float64 [1, 2, 2]"
    by (simp add: settling_error_def demo_ui_simps apply_filter_def demo_x [OF f2]
        before_filter_coefficients direct_lib_simps demo_fil_simps lfilter_direct_def dot_def)
  have near: "imag_below_tol (Float64 [1, 2, 2])"
    using e by (simp add: imag_below_tol_def)
  have n: "fil_f_S residue_fil \<noteq> 0" "fil_f_S demo_fil \<noteq> 0"
    by (simp_all add: f f2)
  have st: "ui_cmbStimulus demo_ui \<in> set stimuli"
    by (simp add: demo_ui_simps stimuli_def)
  from complex_cleanup_absolute [OF n(1) st u refl refl refl, of direct_lib demo_self]
    complex_cleanup_absolute [OF n(2) st u2 refl refl refl, of direct_lib demo_self]
  show ?thesis
    using far near u n st by (simp add: residue_response r2)
qed

text \<open>
  C6. The claim says that the offset is added to every sample exactly when the offset is
  enabled, and that \<open>x\<close> is left unchanged otherwise; the comment of line 278 says the
  same. Line 279 tests the method \<^verbatim>\<open>isVisible\<close> without calling it, which is always
  true: with the line edit hidden and an offset of 1, the unit step \<open>[1, 1, 1]\<close> is
  stored as \<open>[2, 2, 2]\<close>.
\<close>

theorem dc_added_while_hidden:
  "\<not> isVisible (ui_ledDC hidden_dc_ui) () \<and>
   self_x (snd (stimulus direct_lib hidden_dc_ui
      (snd (time_vector hidden_dc_ui demo_fil demo_self)))) = [1, 1, 1] \<and>
   self_x (snd (calc direct_lib hidden_dc_ui demo_fil demo_self)) = [2, 2, 2]"
  by (simp add: calc_defs hidden_dc_ui_def demo_ui_def demo_fil_def demo_self_def Let_def
      upt_rec numeral_3_eq_3)

text \<open>
  C7. For the stimulus \<^verbatim>\<open>"StepErr"\<close> the magnitude of the frequency response of
  \<open>(b, a)\<close> at frequency zero is subtracted from every sample of the filtered \<open>y\<close>; for
  every other stimulus this step leaves \<open>y\<close> as it is. The call stores what
  lines 306-313 make of the result.
\<close>

theorem settling_error_subtracts_dc_gain:
  assumes "fil_f_S fb \<noteq> 0" and "ui_cmbStimulus ui \<in> set stimuli"
    and "2 \<le> min (len (snd (fil_ba fb))) (len (fst (fil_ba fb)))"
    and "s = before_filter lib ui fb self"
    and "y = apply_filter lib fb s"
  shows "calc lib ui fb self = (Completed, store_response s (settling_error lib ui s y)) \<and>
         (ui_cmbStimulus ui = ''StepErr'' \<longrightarrow>
            len (settling_error lib ui s y) = len y \<and>
            (\<forall>n. n < len y \<longrightarrow>
               samples (settling_error lib ui s y) ! n =
                 samples y ! n -
                   complex_of_real (cmod (freqz lib (fst (fil_ba fb)) (snd (fil_ba fb)) 0)))) \<and>
         (ui_cmbStimulus ui \<noteq> ''StepErr'' \<longrightarrow> settling_error lib ui s y = y)"
proof -
  have sub: "samples (nd_sub y c) ! n = samples y ! n - complex_of_real c" if "n < len y" for c n
    using that by (cases y) simp_all
  show ?thesis
    using sub
    by (simp add: calc_usable [OF usable_generates [OF assms(1-3)] assms(3)] assms(4,5)
        settling_error_def len_nd_sub before_filter_coefficients Let_def)
qed

theorem settling_error_subtracts_dc_gain_witness:
  "fil_f_S demo_fil \<noteq> 0 \<and> ui_cmbStimulus steperr_ui \<in> set stimuli \<and>
   2 \<le> min (len (snd (fil_ba demo_fil))) (len (fst (fil_ba demo_fil))) \<and>
   ui_cmbStimulus steperr_ui = ''StepErr'' \<and>
   apply_filter direct_lib demo_fil (before_filter direct_lib steperr_ui demo_fil demo_self) =
     Float64 [1, 2, 2] \<and>
   cmod (freqz direct_lib (fst (fil_ba demo_fil)) (snd (fil_ba demo_fil)) 0) = 2 \<and>
   self_y (snd (calc direct_lib steperr_ui demo_fil demo_self)) = Float64 [- 1, 0, 0]"
proof -
  have g: "fil_f_S demo_fil \<noteq> 0" "ui_cmbStimulus steperr_ui \<in> set stimuli"
    by (simp_all add: steperr_ui_def demo_fil_simps stimuli_def)
  have u: "2 \<le> min (len (snd (fil_ba demo_fil))) (len (fst (fil_ba demo_fil)))"
    by (simp add: demo_fil_simps)
  have b: "before_filter direct_lib steperr_ui demo_fil demo_self =
     demo_self\<lparr>self_N := 3, self_t := [0, 1, 2], self_x := [1, 1, 1],
       self_title_str := ''Settling Error'', self_bb := Float64 [1, 1], self_aa := Float64 [1, 0]\<rparr>"
    by (simp add: before_filter_def calc_defs steperr_ui_def demo_ui_def demo_self_def demo_fil_def
        Let_def upt_rec numeral_3_eq_3)
  have y: "apply_filter direct_lib demo_fil
      (before_filter direct_lib steperr_ui demo_fil demo_self) = Float64 [1, 2, 2]"
    by (simp add: b apply_filter_def demo_fil_simps direct_lib_simps lfilter_direct_def dot_def)
  have dc: "cmod (freqz direct_lib (fst (fil_ba demo_fil)) (snd (fil_ba demo_fil)) 0) = 2"
    by (simp add: demo_fil_simps direct_lib_simps)
  have st: "ui_cmbStimulus steperr_ui = ''StepErr''"
    by (simp add: steperr_ui_def)
  from settling_error_subtracts_dc_gain [OF g u refl refl, of direct_lib demo_self]
  have "self_y (snd (calc direct_lib steperr_ui demo_fil demo_self)) = Float64 [- 1, 0, 0]"
    using dc by (simp add: y st settling_error_def self_y_store_response np_any_def
        before_filter_coefficients)
  with g u st y dc show ?thesis
    by simp
qed

text \<open>
  C8. After a call that ran to its end, \<open>t\<close>, \<open>x\<close> and \<open>y\<close> have the length \<open>N\<close>, the
  resolved point count plus \<^verbatim>\<open>N_start\<close>; \<open>y_i\<close> is an array exactly when \<open>cmplx\<close> is
  true, and it has the length \<open>N\<close> then. The filters of the library return an array of
  the shape of their input.
\<close>

theorem result_lengths:
  assumes "calc lib ui fb self = (Completed, s')" and "shape_preserving lib"
  shows "self_N s' = calc_n_points fb (ui_N_points ui) + ui_N_start ui \<and>
         length (self_t s') = self_N s' \<and> length (self_x s') = self_N s' \<and>
         len (self_y s') = self_N s' \<and>
         (self_y_i s' \<noteq> None \<longleftrightarrow> self_cmplx s') \<and>
         (\<forall>yi. self_y_i s' = Some yi \<longrightarrow> len yi = self_N s')"
proof -
  from assms(1) have "fst (calc lib ui fb self) = Completed"
    by simp
  then have g: "generates ui fb"
    and u: "2 \<le> min (len (snd (fil_ba fb))) (len (fst (fil_ba fb)))"
    by (simp_all only: calc_Completed_iff)
  define s where "s = before_filter lib ui fb self"
  define r where "r = settling_error lib ui s (apply_filter lib fb s)"
  have s': "s' = store_response s r"
    using assms(1) by (simp add: calc_usable [OF g u] s_def r_def)
  have shape: "self_N s = total_points ui fb" "length (self_t s) = total_points ui fb"
    "length (self_x s) = total_points ui fb"
    by (simp_all add: s_def before_filter_shape [OF g])
  have r: "len r = total_points ui fb"
    by (simp add: r_def len_settling_error len_apply_filter [OF assms(2)] shape)
  have N: "self_N s' = calc_n_points fb (ui_N_points ui) + ui_N_start ui"
    by (simp add: s' store_response_keeps shape total_points_def)
  have t: "length (self_t s') = self_N s'" and x: "length (self_x s') = self_N s'"
    by (simp_all add: s' store_response_keeps shape)
  have y: "len (self_y s') = self_N s'"
    by (simp add: s' store_response_keeps store_response_shape(1) shape r)
  have c: "self_y_i s' \<noteq> None \<longleftrightarrow> self_cmplx s'"
    unfolding s' by (rule store_response_shape(2))
  have "len yi = self_N s'" if "self_y_i s' = Some yi" for yi
    using that store_response_shape(3) [of s r yi] by (simp add: s' store_response_keeps shape r)
  with N t x y c show ?thesis
    by blast
qed

theorem result_lengths_witness:
  "fst (calc direct_lib demo_ui demo_fil demo_self) = Completed \<and> shape_preserving direct_lib \<and>
   self_N (snd (calc direct_lib demo_ui demo_fil demo_self)) = 3 \<and>
   length (self_t (snd (calc direct_lib demo_ui demo_fil demo_self))) = 3 \<and>
   length (self_x (snd (calc direct_lib demo_ui demo_fil demo_self))) = 3 \<and>
   len (self_y (snd (calc direct_lib demo_ui demo_fil demo_self))) = 3 \<and>
   self_y_i (snd (calc direct_lib demo_ui demo_fil demo_self)) = None \<and>
   \<not> self_cmplx (snd (calc direct_lib demo_ui demo_fil demo_self))"
proof -
  have f: "fil_f_S demo_fil = 1"
    by (simp add: demo_fil_simps)
  have c: "fst (calc direct_lib demo_ui demo_fil demo_self) = Completed"
    by (simp add: calc_Completed_iff demo_generates [OF f] demo_fil_simps)
  then have "calc direct_lib demo_ui demo_fil demo_self =
      (Completed, snd (calc direct_lib demo_ui demo_fil demo_self))"
    by (simp add: prod_eq_iff)
  from result_lengths [OF this shape_preserving_direct_lib] c shape_preserving_direct_lib
  have *: "self_N (snd (calc direct_lib demo_ui demo_fil demo_self)) = 3 \<and>
   length (self_t (snd (calc direct_lib demo_ui demo_fil demo_self))) = 3 \<and>
   length (self_x (snd (calc direct_lib demo_ui demo_fil demo_self))) = 3 \<and>
   len (self_y (snd (calc direct_lib demo_ui demo_fil demo_self))) = 3 \<and>
   (self_y_i (snd (calc direct_lib demo_ui demo_fil demo_self)) \<noteq> None \<longleftrightarrow>
      self_cmplx (snd (calc direct_lib demo_ui demo_fil demo_self)))"
    by (simp add: calc_n_points_def demo_ui_simps)
  have u: "2 \<le> min (len (snd (fil_ba demo_fil))) (len (fst (fil_ba demo_fil)))"
    by (simp add: demo_fil_simps)
  have "\<not> self_cmplx (snd (calc direct_lib demo_ui demo_fil demo_self))"
    by (simp add: calc_usable [OF demo_generates [OF f] u] store_response_def Let_def
        apply_filter_def demo_fil_simps settling_error_def demo_ui_simps direct_lib_simps
        lfilter_direct_def np_any_def list_ex_iff before_filter_coefficients)
  with * c shape_preserving_direct_lib show ?thesis
    by simp
qed

text \<open>
  C9. The noise stage (lines 272-276), on the stimulus that lines 229-266 stored: the
  samples before \<^verbatim>\<open>N_start\<close> are unchanged whatever the kind of noise; from
  \<^verbatim>\<open>N_start\<close> on, \<^verbatim>\<open>"gauss"\<close> adds the draws of \<^verbatim>\<open>randn\<close> times the noise level and
  \<^verbatim>\<open>"uniform"\<close> the draws of \<^verbatim>\<open>rand\<close> less 0.5 times the noise level, which is at
  most half the level in magnitude for draws in \<open>[0, 1)\<close>; with any other kind of noise
  nothing changes.
\<close>

theorem noise_only_after_start:
  assumes "time_vector ui fb self = (Completed, s1)"
    and "stimulus lib ui s1 = (Completed, s2)"
  shows "length (self_x (add_noise lib ui s2)) = self_N s2 \<and>
         (\<forall>n. n < ui_N_start ui \<and> n < self_N s2 \<longrightarrow>
              self_x (add_noise lib ui s2) ! n = self_x s2 ! n) \<and>
         (ui_noise ui = ''gauss'' \<longrightarrow>
            (\<forall>n. ui_N_start ui \<le> n \<and> n < self_N s2 \<longrightarrow>
               self_x (add_noise lib ui s2) ! n =
                 self_x s2 ! n + ui_noi ui * randn lib (n - ui_N_start ui))) \<and>
         (ui_noise ui = ''uniform'' \<longrightarrow>
            (\<forall>n. ui_N_start ui \<le> n \<and> n < self_N s2 \<longrightarrow>
               self_x (add_noise lib ui s2) ! n =
                 self_x s2 ! n + ui_noi ui * (rand lib (n - ui_N_start ui) - 0.5))) \<and>
         (ui_noise ui = ''uniform'' \<and> (\<forall>k. 0 \<le> rand lib k \<and> rand lib k < 1) \<longrightarrow>
            (\<forall>n. ui_N_start ui \<le> n \<and> n < self_N s2 \<longrightarrow>
               \<bar>self_x (add_noise lib ui s2) ! n - self_x s2 ! n\<bar> \<le> \<bar>ui_noi ui\<bar> * 0.5)) \<and>
         (ui_noise ui \<noteq> ''gauss'' \<and> ui_noise ui \<noteq> ''uniform'' \<longrightarrow> add_noise lib ui s2 = s2)"
proof -
  have "fil_f_S fb \<noteq> 0"
    using assms(1) by (auto simp: time_vector_def Let_def split: if_splits)
  from time_vector_Completed [OF this, of ui self] assms(1)
  have N1: "self_N s1 = total_points ui fb" and t1: "length (self_t s1) = self_N s1"
    by (auto simp: length_linspace)
  from stimulus_length [OF assms(2) t1]
  have len: "length (self_x s2) = self_N s2" and N2: "self_N s2 = self_N s1"
    by simp_all
  have start: "ui_N_start ui \<le> self_N s2"
    by (simp add: N2 N1 total_points_def)
  have gauss: "self_x (add_noise lib ui s2) ! n =
      self_x s2 ! n + ui_noi ui * randn lib (n - ui_N_start ui)"
    if "ui_noise ui = ''gauss''" "ui_N_start ui \<le> n" "n < self_N s2" for n
    using that len by (simp add: add_noise_def iadd_from_after np_random_randn_def)
  have uniform: "self_x (add_noise lib ui s2) ! n =
      self_x s2 ! n + ui_noi ui * (rand lib (n - ui_N_start ui) - 0.5)"
    if "ui_noise ui = ''uniform''" "ui_N_start ui \<le> n" "n < self_N s2" for n
    using that len by (simp add: add_noise_def iadd_from_after np_random_rand_def)
  have bound: "\<bar>self_x (add_noise lib ui s2) ! n - self_x s2 ! n\<bar> \<le> \<bar>ui_noi ui\<bar> * 0.5"
    if u: "ui_noise ui = ''uniform''" and r: "\<forall>k. 0 \<le> rand lib k \<and> rand lib k < 1"
      and n: "ui_N_start ui \<le> n" "n < self_N s2" for n
  proof -
    from r have "0 \<le> rand lib (n - ui_N_start ui)" "rand lib (n - ui_N_start ui) < 1"
      by simp_all
    then have "\<bar>rand lib (n - ui_N_start ui) - 0.5\<bar> \<le> 0.5"
      by linarith
    then have "\<bar>ui_noi ui\<bar> * \<bar>rand lib (n - ui_N_start ui) - 0.5\<bar> \<le> \<bar>ui_noi ui\<bar> * 0.5"
      by (intro mult_left_mono) simp_all
    then show ?thesis
      by (simp add: uniform [OF u n] abs_mult)
  qed
  have before: "self_x (add_noise lib ui s2) ! n = self_x s2 ! n"
    if "n < ui_N_start ui" "n < self_N s2" for n
    using that len by (simp add: add_noise_def iadd_from_before)
  have none: "add_noise lib ui s2 = s2" if "ui_noise ui \<noteq> ''gauss''" "ui_noise ui \<noteq> ''uniform''"
    using that by (simp add: add_noise_def)
  show ?thesis
    using length_add_noise [OF len, of lib ui] gauss uniform bound before none by blast
qed

theorem noise_only_after_start_witness:
  "time_vector gauss_ui demo_fil demo_self =
     (Completed, demo_self\<lparr>self_N := 3, self_t := [0, 1, 2]\<rparr>) \<and>
   stimulus direct_lib gauss_ui (demo_self\<lparr>self_N := 3, self_t := [0, 1, 2]\<rparr>) =
     (Completed, demo_self\<lparr>self_N := 3, self_t := [0, 1, 2], self_x := [1, 1, 1],
        self_title_str := ''Step Response''\<rparr>) \<and>
   ui_noise gauss_ui = ''gauss'' \<and> ui_N_start gauss_ui = 1 \<and>
   self_x (add_noise direct_lib gauss_ui
     (demo_self\<lparr>self_N := 3, self_t := [0, 1, 2], self_x := [1, 1, 1],
        self_title_str := ''Step Response''\<rparr>)) ! 0 = 1 \<and>
   self_x (add_noise direct_lib gauss_ui
     (demo_self\<lparr>self_N := 3, self_t := [0, 1, 2], self_x := [1, 1, 1],
        self_title_str := ''Step Response''\<rparr>)) ! 1 = 3 \<and>
   ui_noise uniform_ui = ''uniform'' \<and> (\<forall>k. 0 \<le> rand direct_lib k \<and> rand direct_lib k < 1) \<and>
   self_x (add_noise direct_lib uniform_ui
     (demo_self\<lparr>self_N := 3, self_t := [0, 1, 2], self_x := [1, 1, 1],
        self_title_str := ''Step Response''\<rparr>)) ! 0 = 1 \<and>
   self_x (add_noise direct_lib uniform_ui
     (demo_self\<lparr>self_N := 3, self_t := [0, 1, 2], self_x := [1, 1, 1],
        self_title_str := ''Step Response''\<rparr>)) ! 2 = 3 / 2 \<and>
   ui_noise demo_ui \<noteq> ''gauss'' \<and> ui_noise demo_ui \<noteq> ''uniform'' \<and>
   add_noise direct_lib demo_ui
     (demo_self\<lparr>self_N := 3, self_t := [0, 1, 2], self_x := [1, 1, 1],
        self_title_str := ''Step Response''\<rparr>) =
     demo_self\<lparr>self_N := 3, self_t := [0, 1, 2], self_x := [1, 1, 1],
        self_title_str := ''Step Response''\<rparr>"
proof -
  have tv: "time_vector ui demo_fil demo_self =
     (Completed, demo_self\<lparr>self_N := 3, self_t := [0, 1, 2]\<rparr>)"
    if "ui_N_points ui = 2" "ui_N_start ui = 1" for ui
    using that
    by (simp add: time_vector_def calc_n_points_def linspace_def demo_fil_def demo_self_def
        Let_def upt_rec numeral_3_eq_3)
  have sm: "stimulus direct_lib ui (demo_self\<lparr>self_N := 3, self_t := [0, 1, 2]\<rparr>) =
     (Completed, demo_self\<lparr>self_N := 3, self_t := [0, 1, 2], self_x := [1, 1, 1],
        self_title_str := ''Step Response''\<rparr>)"
    if "ui_cmbStimulus ui = ''Step''" "ui_A1 ui = 1" for ui
    using that by (simp add: stimulus_def demo_self_def numeral_3_eq_3)
  have g: "ui_N_points gauss_ui = 2" "ui_N_start gauss_ui = 1" "ui_cmbStimulus gauss_ui = ''Step''"
    "ui_A1 gauss_ui = 1" "ui_noise gauss_ui = ''gauss''" "ui_noi gauss_ui = 2"
    by (simp_all add: gauss_ui_def demo_ui_def)
  have u: "ui_N_points uniform_ui = 2" "ui_N_start uniform_ui = 1"
    "ui_cmbStimulus uniform_ui = ''Step''" "ui_A1 uniform_ui = 1"
    "ui_noise uniform_ui = ''uniform''" "ui_noi uniform_ui = 2"
    by (simp_all add: uniform_ui_def demo_ui_def)
  have r: "\<forall>k. 0 \<le> rand direct_lib k \<and> rand direct_lib k < 1"
    by (simp add: direct_lib_simps)
  from noise_only_after_start [OF tv [OF g(1,2)] sm [OF g(3,4)]]
  have 1: "self_x (add_noise direct_lib gauss_ui
     (demo_self\<lparr>self_N := 3, self_t := [0, 1, 2], self_x := [1, 1, 1],
        self_title_str := ''Step Response''\<rparr>)) ! 0 = 1"
    "self_x (add_noise direct_lib gauss_ui
     (demo_self\<lparr>self_N := 3, self_t := [0, 1, 2], self_x := [1, 1, 1],
        self_title_str := ''Step Response''\<rparr>)) ! 1 = 3"
    by (simp_all add: g direct_lib_simps demo_self_def)
  from noise_only_after_start [OF tv [OF u(1,2)] sm [OF u(3,4)]]
  have 2: "self_x (add_noise direct_lib uniform_ui
     (demo_self\<lparr>self_N := 3, self_t := [0, 1, 2], self_x := [1, 1, 1],
        self_title_str := ''Step Response''\<rparr>)) ! 0 = 1"
    "self_x (add_noise direct_lib uniform_ui
     (demo_self\<lparr>self_N := 3, self_t := [0, 1, 2], self_x := [1, 1, 1],
        self_title_str := ''Step Response''\<rparr>)) ! 2 = 3 / 2"
    by (simp_all add: u direct_lib_simps demo_self_def)
  from noise_only_after_start [OF tv [OF demo_ui_simps(1,2)] sm [OF demo_ui_simps(3,4)]]
  have 3: "add_noise direct_lib demo_ui
     (demo_self\<lparr>self_N := 3, self_t := [0, 1, 2], self_x := [1, 1, 1],
        self_title_str := ''Step Response''\<rparr>) =
     demo_self\<lparr>self_N := 3, self_t := [0, 1, 2], self_x := [1, 1, 1],
        self_title_str := ''Step Response''\<rparr>"
    by (simp add: demo_ui_simps)
  show ?thesis
    using tv [OF g(1,2)] sm [OF g(3,4)] g(2,5) u(5) r 1 2 3 by (simp add: demo_ui_simps)
qed

text \<open>
  C10. For a filter with \<open>min(len(a), len(b)) < 2\<close> whose stimulus was generated, the
  call reports that there are no proper coefficients after it has stored the new \<open>x\<close>:
  \<open>x\<close> has the full length, each of its samples is the sample of the stimulus of
  lines 229-266 plus the noise of its kind from \<^verbatim>\<open>N_start\<close> on plus the offset, and it
  is the same whatever \<open>x\<close> was stored before; \<open>y\<close>, \<open>y_i\<close> and \<open>cmplx\<close> are those of
  before the call. So a failing call changes \<^verbatim>\<open>self\<close>.
\<close>

theorem degenerate_filter_overwrites_x:
  assumes "generates ui fb"
    and "min (len (snd (fil_ba fb))) (len (fst (fil_ba fb))) < 2"
    and "s2 = snd (stimulus lib ui (snd (time_vector ui fb self)))"
    and "s' = snd (calc lib ui fb self)"
  shows "fst (calc lib ui fb self) = Reported No_proper_coefficients \<and>
         self_x s' = self_x (add_dc ui (add_noise lib ui s2)) \<and>
         length (self_x s') = total_points ui fb \<and>
         (\<forall>n. n < total_points ui fb \<longrightarrow>
            self_x s' ! n =
              self_x s2 ! n +
                (if ui_N_start ui \<le> n then
                   (if ui_noise ui = ''gauss'' then ui_noi ui * randn lib (n - ui_N_start ui)
                    else if ui_noise ui = ''uniform''
                    then ui_noi ui * (rand lib (n - ui_N_start ui) - 0.5)
                    else 0)
                 else 0) +
                ui_DC ui) \<and>
         self_x (snd (calc lib ui fb (self\<lparr>self_x := x0\<rparr>))) = self_x s' \<and>
         self_y s' = self_y self \<and>
         self_y_i s' = self_y_i self \<and>
         self_cmplx s' = self_cmplx self"
proof -
  note c = calc_degenerate [OF assms(1,2), of lib]
  from generates_stages [OF assms(1), of self lib]
  obtain s1 t2 where tv: "time_vector ui fb self = (Completed, s1)"
    and sm: "stimulus lib ui s1 = (Completed, t2)"
    and N2: "self_N t2 = total_points ui fb" and x2: "length (self_x t2) = total_points ui fb"
    by metis
  have s2: "s2 = t2"
    by (simp add: assms(3) tv sm)
  have x: "self_x s' = self_x (add_dc ui (add_noise lib ui s2))"
    by (simp add: assms(3,4) c before_filter_def)
  have len: "length (self_x s') = total_points ui fb"
    using before_filter_shape(3) [OF assms(1), of lib self] by (simp add: assms(4) c)
  have nth: "self_x s' ! n =
      self_x s2 ! n +
        (if ui_N_start ui \<le> n then
           (if ui_noise ui = ''gauss'' then ui_noi ui * randn lib (n - ui_N_start ui)
            else if ui_noise ui = ''uniform''
            then ui_noi ui * (rand lib (n - ui_N_start ui) - 0.5)
            else 0)
         else 0) +
        ui_DC ui"
    if n: "n < total_points ui fb" for n
  proof -
    have l: "length (self_x (add_noise lib ui t2)) = self_N t2"
      by (rule length_add_noise) (simp add: x2 N2)
    have "self_x s' ! n = self_x (add_noise lib ui t2) ! n + ui_DC ui"
      using n l by (simp add: x s2 add_dc_always N2)
    also have "self_x (add_noise lib ui t2) ! n =
        self_x t2 ! n +
          (if ui_N_start ui \<le> n then
             (if ui_noise ui = ''gauss'' then ui_noi ui * randn lib (n - ui_N_start ui)
              else if ui_noise ui = ''uniform''
              then ui_noi ui * (rand lib (n - ui_N_start ui) - 0.5)
              else 0)
           else 0)"
      by (rule add_noise_nth) (simp_all add: x2 N2 n)
    finally show ?thesis
      by (simp add: s2)
  qed
  have old: "self_x (snd (calc lib ui fb (self\<lparr>self_x := x0\<rparr>))) = self_x s'"
    by (simp add: assms(4) c before_filter_old_x [OF assms(1)])
  from c x len nth old show ?thesis
    by (simp add: assms(4) before_filter_keeps)
qed

theorem degenerate_filter_overwrites_x_witness:
  "generates noisy_dc_ui identity_fil \<and>
   min (len (snd (fil_ba identity_fil))) (len (fst (fil_ba identity_fil))) < 2 \<and>
   fst (calc direct_lib noisy_dc_ui identity_fil demo_self) = Reported No_proper_coefficients \<and>
   self_x (snd (stimulus direct_lib noisy_dc_ui
     (snd (time_vector noisy_dc_ui identity_fil demo_self)))) = [1, 1, 1] \<and>
   ui_noise noisy_dc_ui = ''gauss'' \<and> ui_noi noisy_dc_ui = 1 \<and> ui_N_start noisy_dc_ui = 1 \<and>
   ui_DC noisy_dc_ui = 1 / 2 \<and>
   self_x demo_self = [] \<and>
   self_x (snd (calc direct_lib noisy_dc_ui identity_fil demo_self)) = [3 / 2, 5 / 2, 5 / 2] \<and>
   self_x (snd (calc direct_lib noisy_dc_ui identity_fil
     (demo_self\<lparr>self_x := [7, 7]\<rparr>))) = [3 / 2, 5 / 2, 5 / 2] \<and>
   self_y (snd (calc direct_lib noisy_dc_ui identity_fil demo_self)) = self_y demo_self"
proof -
  have g: "generates noisy_dc_ui identity_fil"
    by (simp add: generates_def noisy_dc_ui_def demo_ui_def identity_fil_def demo_fil_def
        stimuli_def total_points_def calc_n_points_def)
  have s: "min (len (snd (fil_ba identity_fil))) (len (fst (fil_ba identity_fil))) < 2"
    by (simp add: identity_fil_def)
  have u: "ui_noise noisy_dc_ui = ''gauss''" "ui_noi noisy_dc_ui = 1" "ui_N_start noisy_dc_ui = 1"
    "ui_DC noisy_dc_ui = 1 / 2"
    by (simp_all add: noisy_dc_ui_def demo_ui_def)
  have tp: "total_points noisy_dc_ui identity_fil = 3"
    by (simp add: total_points_def calc_n_points_def noisy_dc_ui_def demo_ui_def)
  have st: "self_x (snd (stimulus direct_lib noisy_dc_ui
      (snd (time_vector noisy_dc_ui identity_fil demo_self)))) = [1, 1, 1]"
    by (simp add: time_vector_def stimulus_def calc_n_points_def noisy_dc_ui_def demo_ui_def
        identity_fil_def demo_fil_def demo_self_def Let_def numeral_3_eq_3)
  note t = degenerate_filter_overwrites_x [OF g s refl refl, of direct_lib demo_self "[7, 7]"]
  have len: "length (self_x (snd (calc direct_lib noisy_dc_ui identity_fil demo_self))) = 3"
    using t unfolding tp by blast
  have all: "n < 3 \<Longrightarrow>
      self_x (snd (calc direct_lib noisy_dc_ui identity_fil demo_self)) ! n =
        self_x (snd (stimulus direct_lib noisy_dc_ui
          (snd (time_vector noisy_dc_ui identity_fil demo_self)))) ! n +
        (if ui_N_start noisy_dc_ui \<le> n then
           (if ui_noise noisy_dc_ui = ''gauss''
            then ui_noi noisy_dc_ui * randn direct_lib (n - ui_N_start noisy_dc_ui)
            else if ui_noise noisy_dc_ui = ''uniform''
            then ui_noi noisy_dc_ui * (rand direct_lib (n - ui_N_start noisy_dc_ui) - 0.5)
            else 0)
         else 0) +
        ui_DC noisy_dc_ui" for n
    using t unfolding tp by blast
  have nth: "self_x (snd (calc direct_lib noisy_dc_ui identity_fil demo_self)) ! 0 = 3 / 2"
    "self_x (snd (calc direct_lib noisy_dc_ui identity_fil demo_self)) ! 1 = 5 / 2"
    "self_x (snd (calc direct_lib noisy_dc_ui identity_fil demo_self)) ! 2 = 5 / 2"
    using all [of 0] all [of 1] all [of 2] by (simp_all add: st u direct_lib_simps)
  have old: "self_x (snd (calc direct_lib noisy_dc_ui identity_fil (demo_self\<lparr>self_x := [7, 7]\<rparr>))) =
      self_x (snd (calc direct_lib noisy_dc_ui identity_fil demo_self))"
    and rest: "fst (calc direct_lib noisy_dc_ui identity_fil demo_self) = Reported No_proper_coefficients"
      "self_y (snd (calc direct_lib noisy_dc_ui identity_fil demo_self)) = self_y demo_self"
    using t by blast+
  have x: "self_x (snd (calc direct_lib noisy_dc_ui identity_fil demo_self)) = [3 / 2, 5 / 2, 5 / 2]"
  proof (rule nth_equalityI)
    show "length (self_x (snd (calc direct_lib noisy_dc_ui identity_fil demo_self))) =
        length [3 / 2, 5 / 2, 5 / 2 :: real]"
      by (simp add: len)
  next
    fix i
    assume "i < length (self_x (snd (calc direct_lib noisy_dc_ui identity_fil demo_self)))"
    then have "i = 0 \<or> i = 1 \<or> i = 2"
      by (auto simp: len)
    then show "self_x (snd (calc direct_lib noisy_dc_ui identity_fil demo_self)) ! i =
        [3 / 2, 5 / 2, 5 / 2] ! i"
      using nth by auto
  qed
  from x old rest g s u st show ?thesis
    by (simp add: demo_self_simps)
qed

end
